theory Spec2Isabelle
  imports Main "HOL-Library.Word" "HOL-Library.Signed_Division"
begin

unbundle bit_operations_syntax

section \<open>Machine types of the target (Arduino Nano, avr-gcc)\<close>

text \<open>
  CurrentMeter.ino names its target in the header comment: Arduino Nano. On that
  target \<open>int\<close> has 16 bits, \<open>long\<close> has 32 bits, \<open>float\<close> has 32 bits and \<open>char\<close> is
  one signed byte. Integer arithmetic is modelled on words (wrapping); a \<open>float\<close> is the
  32-bit pattern that \<open>EEPROM.put\<close> and \<open>EEPROM.get\<close> copy byte by byte.
\<close>

type_synonym byte = "8 word"
type_synonym int16 = "16 word"
type_synonym long32 = "32 word"

datatype float32 = Float (bits: "32 word")

text \<open>
  The arithmetic of \<open>float\<close> (the run-time library's multiplication, division, addition,
  subtraction, negation, comparison and the conversion from \<open>long\<close>) is not part of the
  sketch. Every function below takes it as the parameter \<open>fp\<close>, and every theorem holds
  for whatever these operations compute.
\<close>

record float_ops =
  fmul :: "float32 \<Rightarrow> float32 \<Rightarrow> float32"
  fdiv :: "float32 \<Rightarrow> float32 \<Rightarrow> float32"
  fadd :: "float32 \<Rightarrow> float32 \<Rightarrow> float32"
  fsub :: "float32 \<Rightarrow> float32 \<Rightarrow> float32"
  fneg :: "float32 \<Rightarrow> float32"
  fless :: "float32 \<Rightarrow> float32 \<Rightarrow> bool"
  of_long :: "long32 \<Rightarrow> float32"

text \<open>The float literals of the sketch, as IEEE single bit patterns.\<close>

definition lit_0_0 :: float32 where "lit_0_0 = Float 0x00000000"
definition lit_1_0 :: float32 where "lit_1_0 = Float 0x3F800000"
definition lit_0_001 :: float32 where "lit_0_001 = Float 0x3A83126F"

definition sizeof_int :: nat where "sizeof_int = 2"
definition sizeof_long :: nat where "sizeof_long = 4"
definition sizeof_float :: nat where "sizeof_float = 4"

section \<open>Global constants (lines 27-71, 92-95)\<close>

definition vers :: string where "vers = ''CurrentMeter v1.2''"

text \<open>\<open>const float FSR2 = 4.096\<close>, \<open>float ADCFull = 32767\<close>, \<open>float VFull = FSR2\<close>.\<close>

definition FSR2 :: float32 where "FSR2 = Float 0x4083126F"
definition ADCFull :: float32 where "ADCFull = Float 0x46FFFE00"
definition VFull :: float32 where "VFull = FSR2"

definition frequency :: int16 where "frequency = 860"
definition nSample :: int16 where "nSample = 430"

definition EEPROMFlag :: int16 where "EEPROMFlag = 12345"
definition EEPROMProgrammedFlagAddr :: nat where "EEPROMProgrammedFlagAddr = 0"
definition ADCCalAddr :: nat where "ADCCalAddr = EEPROMProgrammedFlagAddr + sizeof_int"
definition ADCOffsetAddr :: nat where "ADCOffsetAddr = ADCCalAddr + sizeof_float"

section \<open>Serial output\<close>

text \<open>
  What the sketch sends to \<open>Serial\<close> is kept as a list of items, one per \<open>print\<close> call or
  per conversion of a \<open>sprintf\<close> format: the text of a number is not computed, the item
  records which value was handed to which conversion. \<open>NL\<close> is the line end of
  \<open>println\<close>. \<open>Fmt_d w v\<close> stands for \<open>%wd\<close> applied to the argument \<open>v\<close>,
  \<open>Fmt_f w p x\<close> for \<open>%w.pf\<close> applied to \<open>x\<close>, \<open>NumFloat x p\<close> for \<open>Serial.print(x, p)\<close>.
  \<open>Dflt x\<close> is the output of the helper \<open>Default(x)\<close>, which is declared outside
  CurrentMeter.ino.
\<close>

datatype item =
    Txt string
  | Chr char
  | NumByte nat
  | NumInt int16
  | NumLong long32
  | NumFloat float32 nat
  | Fmt_d nat long32
  | Fmt_f nat nat float32
  | Dflt float32
  | NL

section \<open>EEPROM\<close>

text \<open>
  \<open>EEPROM.put(addr, x)\<close> copies the \<open>sizeof(x)\<close> bytes of \<open>x\<close> to \<open>addr, addr+1, ...\<close>;
  \<open>EEPROM.get(addr, x)\<close> copies them back. The AVR is little-endian.
\<close>

type_synonym eeprom_mem = "nat \<Rightarrow> byte"

definition le_bytes :: "nat \<Rightarrow> 'a::len word \<Rightarrow> byte list" where
  "le_bytes n w = map (\<lambda>k. ucast (drop_bit (8 * k) w)) [0..<n]"

definition le_word :: "byte list \<Rightarrow> 'a::len word" where
  "le_word bs = foldr (\<lambda>b acc. ucast b OR push_bit 8 acc) bs 0"

definition put_bytes :: "nat \<Rightarrow> byte list \<Rightarrow> eeprom_mem \<Rightarrow> eeprom_mem" where
  "put_bytes a bs e = (\<lambda>i. if a \<le> i \<and> i < a + length bs then bs ! (i - a) else e i)"

definition get_bytes :: "nat \<Rightarrow> nat \<Rightarrow> eeprom_mem \<Rightarrow> byte list" where
  "get_bytes a n e = map e [a..<a + n]"

definition EEPROM_put_int :: "nat \<Rightarrow> int16 \<Rightarrow> eeprom_mem \<Rightarrow> eeprom_mem" where
  "EEPROM_put_int a x e = put_bytes a (le_bytes sizeof_int x) e"

definition EEPROM_get_int :: "nat \<Rightarrow> eeprom_mem \<Rightarrow> int16" where
  "EEPROM_get_int a e = le_word (get_bytes a sizeof_int e)"

definition EEPROM_put_long :: "nat \<Rightarrow> long32 \<Rightarrow> eeprom_mem \<Rightarrow> eeprom_mem" where
  "EEPROM_put_long a x e = put_bytes a (le_bytes sizeof_long x) e"

definition EEPROM_get_long :: "nat \<Rightarrow> eeprom_mem \<Rightarrow> long32" where
  "EEPROM_get_long a e = le_word (get_bytes a sizeof_long e)"

definition EEPROM_put_float :: "nat \<Rightarrow> float32 \<Rightarrow> eeprom_mem \<Rightarrow> eeprom_mem" where
  "EEPROM_put_float a x e = put_bytes a (le_bytes sizeof_float (bits x)) e"

definition EEPROM_get_float :: "nat \<Rightarrow> eeprom_mem \<Rightarrow> float32" where
  "EEPROM_get_float a e = Float (le_word (get_bytes a sizeof_float e))"

section \<open>Program state (lines 65-89 and the peripherals)\<close>

text \<open>
  The globals of the sketch keep their names. The peripherals are the last six fields:
  the EEPROM bytes, everything sent to \<open>Serial\<close> so far, the value last sent to the
  7-segment display, the levels of the sign LED pin (\<open>negPin\<close>) and of the activity LED
  pin (\<open>LEDPin\<close>), and the number of conversion requests issued to the ADC.
\<close>

record state =
  gotADCValue :: bool
  cmdChar :: char
  ADCVal :: int16
  ADCValSum :: long32
  ADCVal0 :: long32
  ADCHigh :: long32
  ADCLow :: long32
  sample :: int16
  Amps :: float32
  VScale :: float32
  ADCCal :: float32
  ADCOffset :: long32
  fADCOffset :: float32
  SerialDisplay :: bool
  eeprom :: eeprom_mem
  serial_out :: "item list"
  AmpDisplay :: float32
  negPin_level :: bool
  LEDPin_level :: bool
  adc_requests :: nat

text \<open>
  The state when \<open>setup\<close> starts: C++ zero-initialises every global without an
  initialiser; the EEPROM holds whatever it held before the reset.
\<close>

definition power_on :: "eeprom_mem \<Rightarrow> state" where
  "power_on e = \<lparr> gotADCValue = False, cmdChar = CHR 0x00, ADCVal = 0, ADCValSum = 0,
     ADCVal0 = 0, ADCHigh = 0, ADCLow = 0, sample = 0, Amps = lit_0_0, VScale = lit_0_0,
     ADCCal = lit_0_0, ADCOffset = 0, fADCOffset = lit_0_0, SerialDisplay = False,
     eeprom = e, serial_out = [], AmpDisplay = lit_0_0, negPin_level = False,
     LEDPin_level = False, adc_requests = 0 \<rparr>"

definition say :: "item list \<Rightarrow> state \<Rightarrow> state" where
  "say xs s = s\<lparr> serial_out := serial_out s @ xs \<rparr>"

section \<open>Helpers of the sketch (lines 294-355)\<close>

definition echo :: "state \<Rightarrow> state" where
  "echo s = say [Chr (cmdChar s), NL] s"

definition prompt_items :: "item list" where
  "prompt_items = [NL, Txt ''> '']"

definition prompt :: "state \<Rightarrow> state" where
  "prompt s = say prompt_items s"

definition rule_line :: string where
  "rule_line = ''=======,   ====   ,   ====   ,   ===    ,   =====''"

definition title_line :: string where
  "title_line = ''ADC nom,   Amps   ,   High   ,   Low    ,   Delta''"

definition header_items :: "bool \<Rightarrow> item list" where
  "header_items on =
     (if \<not> on then [Txt rule_line, NL] else [NL])
     @ [Txt title_line, NL]
     @ (if on then [Txt rule_line, NL] else [])"

definition Display_Header :: "state \<Rightarrow> state" where
  "Display_Header s = say (header_items (SerialDisplay s)) s"

text \<open>
  \<open>a / b\<close> on \<open>long\<close>: C's division truncates towards zero (\<open>sdiv\<close> on the signed
  values), unlike HOL's \<open>div\<close>. The divisor is never 0 where the sketch divides.
\<close>

definition long_div :: "long32 \<Rightarrow> long32 \<Rightarrow> long32" where
  "long_div a b = word_of_int (sint a sdiv sint b)"

text \<open>\<open>float(x)\<close> for a \<open>long\<close> and for an \<open>int\<close> (the same integer, sign-extended).\<close>

definition float_of_long :: "float_ops \<Rightarrow> long32 \<Rightarrow> float32" where
  "float_of_long fp x = of_long fp x"

definition float_of_int :: "float_ops \<Rightarrow> int16 \<Rightarrow> float32" where
  "float_of_int fp x = of_long fp (scast x)"

definition highVolts :: "float_ops \<Rightarrow> state \<Rightarrow> float32" where
  "highVolts fp s = fmul fp (VScale s) (fadd fp (float_of_long fp (ADCHigh s)) (fADCOffset s))"

definition lowVolts :: "float_ops \<Rightarrow> state \<Rightarrow> float32" where
  "lowVolts fp s = fmul fp (VScale s) (fadd fp (float_of_long fp (ADCLow s)) (fADCOffset s))"

text \<open>
  \<open>Print_Data\<close> (lines 325-336): three \<open>sprintf\<close> calls, each printed at once. The first
  argument is \<open>ADCValSum/sample\<close>, a \<open>long\<close> divided by an \<open>int\<close> promoted to \<open>long\<close>.
  The item \<open>Fmt_d 6\<close> keeps this argument as it is computed; which of its bytes the
  library's \<open>%d\<close> prints is not modelled.
\<close>

definition record_items :: "float_ops \<Rightarrow> state \<Rightarrow> item list" where
  "record_items fp s =
     [Fmt_d 6 (long_div (ADCValSum s) (scast (sample s))), Txt '' , '',
      Fmt_f 8 4 (Amps s), Txt '' , '', Fmt_f 8 4 (highVolts fp s), Txt '' , '',
      Fmt_f 8 4 (lowVolts fp s), Txt '' , '',
      Fmt_f 8 4 (fsub fp (highVolts fp s) (lowVolts fp s)), NL]"

definition Print_Data :: "float_ops \<Rightarrow> state \<Rightarrow> state" where
  "Print_Data fp s = say (record_items fp s) s"

definition parameter_items :: "float_ops \<Rightarrow> state \<Rightarrow> item list" where
  "parameter_items fp s =
     [NL, Txt vers, NL,
      Txt ''Sample rate (Samp/s):   '', NumInt frequency, NL,
      Txt ''Number of samples:      '', NumInt nSample, NL,
      Txt ''Calibrated bits/mA:     '', NumFloat (fdiv fp lit_0_001 (VScale s)) 3, NL,
      Txt ''ADC offset:             '', NumLong (ADCOffset s),
      Txt ''  ('', NumFloat (fADCOffset s) 3, Txt '')'', NL,
      Txt ''ADC scale factor:       '', NumFloat (ADCCal s) 3, NL,
      Txt ''USB serial output:      '',
      Txt (if SerialDisplay s then ''On'' else ''Off''), NL]"

definition Display_parameters :: "float_ops \<Rightarrow> state \<Rightarrow> state" where
  "Display_parameters fp s = say (parameter_items fp s) s"

text \<open>\<open>VScale = ADCCal * VFull / ADCFull\<close> (lines 128, 251, 371).\<close>

definition calc_VScale :: "float_ops \<Rightarrow> float32 \<Rightarrow> float32" where
  "calc_VScale fp cal = fdiv fp (fmul fp cal VFull) ADCFull"

text \<open>\<open>fADCOffset = float(ADCOffset)/float(nSample)\<close> (lines 126, 243, 260).\<close>

definition calc_fADCOffset :: "float_ops \<Rightarrow> long32 \<Rightarrow> float32" where
  "calc_fADCOffset fp off = fdiv fp (float_of_long fp off) (float_of_int fp nSample)"

section \<open>Set\_Scale (lines 360-378)\<close>

text \<open>
  \<open>getFloat\<close> is called but not defined in CurrentMeter.ino. \<open>Set_Scale\<close> takes what the
  call leaves behind: the returned code \<open>ier\<close> and the value \<open>aflt\<close> it stored.
\<close>

definition Set_Scale :: "float_ops \<Rightarrow> int16 \<times> float32 \<Rightarrow> state \<Rightarrow> state" where
  "Set_Scale fp gf s =
     (let s1 = say [Txt ''Enter scale factor'', Dflt (ADCCal s)] s;
          ier = fst gf; aflt = snd gf;
          s2 = say [NL] s1
      in if 0 <s ier then
           (let s3 = s2\<lparr> ADCCal := aflt \<rparr>;
                s4 = s3\<lparr> eeprom := EEPROM_put_float ADCCalAddr (ADCCal s3) (eeprom s3) \<rparr>;
                s5 = s4\<lparr> VScale := calc_VScale fp (ADCCal s4) \<rparr>
            in say [Txt ''Scale factor (ADCCal) = '', NumFloat (ADCCal s5) 4, NL] s5)
         else say [Txt ''Scale factor not updated = '', NumFloat (ADCCal s2) 4, NL] s2)"

text \<open>
  Modelled from the spec: \<open>getFloat\<close>, the numeric read of the scale-factor sub-dialog,
  is missing from the sources. The spec says the entry is accepted when it is
  "a parsed, finite number within an accepted magnitude bound", and rejected "on parse
  failure or out-of-bound input". The entry is \<open>None\<close> when the typed token does not
  parse; \<open>within\<close> decides whether a parsed number is finite and within the bound. The
  result is the positive code with the number on acceptance, and the code 0 with the
  caller's variable left as it was on rejection.
\<close>

definition getFloat ::
  "(float32 \<Rightarrow> int16 \<Rightarrow> bool) \<Rightarrow> float32 option \<Rightarrow> float32 \<Rightarrow> int16 \<Rightarrow> int16 \<times> float32" where
  "getFloat within entry aflt bound =
     (case entry of
        None \<Rightarrow> (0, aflt)
      | Some v \<Rightarrow> if within v bound then (1, v) else (0, aflt))"

section \<open>setup (lines 103-148)\<close>

definition load_defaults :: "state \<Rightarrow> state" where
  "load_defaults s =
     (let s1 = say [Txt ''Loading defaults to EEPROM...''] s;
          s2 = s1\<lparr> eeprom := EEPROM_put_int EEPROMProgrammedFlagAddr EEPROMFlag (eeprom s1) \<rparr>;
          s3 = s2\<lparr> ADCOffset := 0 \<rparr>;
          s4 = s3\<lparr> eeprom := EEPROM_put_long ADCOffsetAddr (ADCOffset s3) (eeprom s3) \<rparr>;
          s5 = s4\<lparr> ADCCal := lit_1_0 \<rparr>;
          s6 = s5\<lparr> eeprom := EEPROM_put_float ADCCalAddr (ADCCal s5) (eeprom s5) \<rparr>
      in say [Txt '' Done.'', NL] s6)"

definition load_values :: "float_ops \<Rightarrow> state \<Rightarrow> state" where
  "load_values fp s =
     (let s1 = s\<lparr> ADCOffset := EEPROM_get_long ADCOffsetAddr (eeprom s) \<rparr>;
          s2 = s1\<lparr> fADCOffset := calc_fADCOffset fp (ADCOffset s1) \<rparr>;
          s3 = s2\<lparr> ADCCal := EEPROM_get_float ADCCalAddr (eeprom s2) \<rparr>
      in s3\<lparr> VScale := calc_VScale fp (ADCCal s3) \<rparr>)"

definition setup_sketch :: "float_ops \<Rightarrow> state \<Rightarrow> state" where
  "setup_sketch fp s =
     (let s1 = (say [Txt vers, NL] s)\<lparr> LEDPin_level := False \<rparr>;
          EEPROMProgrammedFlag = EEPROM_get_int EEPROMProgrammedFlagAddr (eeprom s1);
          s2 = (if EEPROMProgrammedFlag \<noteq> EEPROMFlag then load_defaults s1 else s1);
          s3 = load_values fp s2;
          s4 = s3\<lparr> ADCHigh := - 32768, ADCLow := 32767,
                     adc_requests := Suc (adc_requests s3) \<rparr>
      in prompt (say [Txt ''(Press ? for menu)'', NL] s4))"

section \<open>loop, first half: the sample aggregator (lines 159-193)\<close>

text \<open>The interrupt routine \<open>ADCread\<close> (lines 383-387).\<close>

definition ADCread :: "state \<Rightarrow> state" where
  "ADCread s = s\<lparr> gotADCValue := True \<rparr>"

text \<open>
  Lines 161-166, with \<open>v\<close> the code that \<open>ads1115.getValue()\<close> returns. The comparisons
  and the addition promote the \<open>int\<close> to \<open>long\<close> (\<open>scast\<close>).
\<close>

definition accumulate :: "int16 \<Rightarrow> state \<Rightarrow> state" where
  "accumulate v s =
     (let s1 = s\<lparr> gotADCValue := False \<rparr>;
          s2 = s1\<lparr> ADCVal := v \<rparr>;
          s3 = (if ADCHigh s2 <s scast (ADCVal s2) then s2\<lparr> ADCHigh := scast (ADCVal s2) \<rparr> else s2);
          s4 = (if scast (ADCVal s3) <s ADCLow s3 then s3\<lparr> ADCLow := scast (ADCVal s3) \<rparr> else s3);
          s5 = s4\<lparr> ADCValSum := ADCValSum s4 + scast (ADCVal s4) \<rparr>
      in s5\<lparr> sample := sample s5 + 1 \<rparr>)"

text \<open>Lines 169-182: the reading of the completed window.\<close>

definition compute_reading :: "float_ops \<Rightarrow> state \<Rightarrow> state" where
  "compute_reading fp s =
     (let s1 = s\<lparr> ADCVal0 := ADCValSum s \<rparr>;
          s2 = s1\<lparr> ADCValSum := ADCValSum s1 + ADCOffset s1 \<rparr>;
          s3 = s2\<lparr> Amps := fmul fp (VScale s2)
                              (float_of_long fp (long_div (ADCValSum s2) (scast (sample s2)))) \<rparr>
      in if fless fp (Amps s3) lit_0_0
         then s3\<lparr> AmpDisplay := fneg fp (Amps s3), negPin_level := True \<rparr>
         else s3\<lparr> AmpDisplay := Amps s3, negPin_level := False \<rparr>)"

text \<open>Lines 188-191: get ready for the next data set.\<close>

definition reset_window :: "state \<Rightarrow> state" where
  "reset_window s = s\<lparr> ADCValSum := 0, ADCHigh := - 32768, ADCLow := 32767, sample := 0 \<rparr>"

text \<open>Lines 169-191: what happens once \<open>sample >= nSample\<close>.\<close>

definition window_done :: "float_ops \<Rightarrow> state \<Rightarrow> state" where
  "window_done fp s =
     (let s1 = compute_reading fp s;
          s2 = s1\<lparr> LEDPin_level := \<not> LEDPin_level s1 \<rparr>;
          s3 = (if SerialDisplay s2 then Print_Data fp s2 else s2)
      in reset_window s3)"

definition loop_adc :: "float_ops \<Rightarrow> int16 \<Rightarrow> state \<Rightarrow> state" where
  "loop_adc fp v s =
     (if gotADCValue s then
        (let s1 = accumulate v s
         in if nSample \<le>s sample s1 then window_done fp s1 else s1)
      else s)"

section \<open>loop, second half: the command interpreter (lines 196-286)\<close>

text \<open>The value of a \<open>char\<close> as the signed byte it is on the target.\<close>

definition char_code :: "char \<Rightarrow> int" where
  "char_code c = sint (word_of_nat (of_char c) :: byte)"

definition help_items :: "item list" where
  "help_items =
     [Txt ''H - Display this help menu'', NL,
      Txt ''G - Set gain (scale factor)'', NL,
      Txt ''! (shift 1) - Set gain to 1.0'', NL,
      Txt ''O - Capture offset'', NL,
      Txt '') (shift 0) - Set offset to 0'', NL,
      Txt ''P - Display Parameters'', NL,
      Txt ''S - Toggle serial logging'', NL,
      Txt ''K - Kick the ADC if it's not running'', NL]"

text \<open>
  The bodies of the \<open>case\<close> labels of the \<open>switch\<close> on \<open>cmdChar\<close>, in the order of the
  source. \<open>gf\<close> is what \<open>getFloat\<close> returns should the command be \<open>G\<close>.
\<close>

text \<open>Lines 202-208: carriage return and line feed.\<close>

definition cmd_version :: "state \<Rightarrow> state" where
  "cmd_version s = prompt (say [NL, Txt vers, NL, Txt ''(Press ? for menu)'', NL] s)"

text \<open>Lines 209-223.\<close>

definition cmd_help :: "state \<Rightarrow> state" where
  "cmd_help s = prompt (say help_items (echo s))"

text \<open>Lines 224-231; the \<open>delay\<close> and the flush leave the state as it is.\<close>

definition cmd_gain :: "float_ops \<Rightarrow> int16 \<times> float32 \<Rightarrow> state \<Rightarrow> state" where
  "cmd_gain fp gf s = prompt (Set_Scale fp gf (echo s))"

text \<open>Lines 232-238.\<close>

definition cmd_kick :: "state \<Rightarrow> state" where
  "cmd_kick s =
     (let s1 = echo s;
          s2 = s1\<lparr> adc_requests := Suc (adc_requests s1) \<rparr>
      in prompt (say [Txt ''Kicked ADC.'', NL] s2))"

text \<open>Lines 239-246.\<close>

definition cmd_zero_offset :: "float_ops \<Rightarrow> state \<Rightarrow> state" where
  "cmd_zero_offset fp s =
     (let s1 = echo s;
          s2 = s1\<lparr> ADCOffset := 0 \<rparr>;
          s3 = s2\<lparr> eeprom := EEPROM_put_long ADCOffsetAddr (ADCOffset s2) (eeprom s2) \<rparr>;
          s4 = s3\<lparr> fADCOffset := calc_fADCOffset fp (ADCOffset s3) \<rparr>
      in prompt (say [Txt ''Offset set to zero.'', NL] s4))"

text \<open>Lines 247-254.\<close>

definition cmd_unit_gain :: "float_ops \<Rightarrow> state \<Rightarrow> state" where
  "cmd_unit_gain fp s =
     (let s1 = echo s;
          s2 = s1\<lparr> ADCCal := lit_1_0 \<rparr>;
          s3 = s2\<lparr> eeprom := EEPROM_put_float ADCCalAddr (ADCCal s2) (eeprom s2) \<rparr>;
          s4 = s3\<lparr> VScale := calc_VScale fp (ADCCal s3) \<rparr>
      in prompt (say [Txt ''Gain set to one.'', NL] s4))"

text \<open>Lines 255-263.\<close>

definition cmd_capture_offset :: "float_ops \<Rightarrow> state \<Rightarrow> state" where
  "cmd_capture_offset fp s =
     (let s1 = echo s;
          s2 = s1\<lparr> ADCOffset := - ADCVal0 s1 \<rparr>;
          s3 = s2\<lparr> eeprom := EEPROM_put_long ADCOffsetAddr (ADCOffset s2) (eeprom s2) \<rparr>;
          s4 = s3\<lparr> fADCOffset := calc_fADCOffset fp (ADCOffset s3) \<rparr>
      in prompt (say [Txt ''Offset captured and saved.'', NL] s4))"

text \<open>Lines 264-269.\<close>

definition cmd_parameters :: "float_ops \<Rightarrow> state \<Rightarrow> state" where
  "cmd_parameters fp s = prompt (Display_parameters fp (echo s))"

text \<open>Lines 270-274.\<close>

definition cmd_toggle :: "state \<Rightarrow> state" where
  "cmd_toggle s = Display_Header (s\<lparr> SerialDisplay := \<not> SerialDisplay s \<rparr>)"

text \<open>Lines 275-282: \<open>default\<close>.\<close>

definition cmd_unknown :: "state \<Rightarrow> state" where
  "cmd_unknown s =
     (let c = cmdChar s;
          s1 = (if 32 < char_code c \<and> char_code c < 127
                then say [Chr c] s else say [NumByte (of_char c)] s)
      in prompt (say [Txt '' ??''] s1))"

text \<open>The \<open>switch\<close> itself (lines 200-283).\<close>

definition command :: "float_ops \<Rightarrow> int16 \<times> float32 \<Rightarrow> state \<Rightarrow> state" where
  "command fp gf s =
     (let c = cmdChar s in
      if c = CHR 0x0D \<or> c = CHR 0x0A then cmd_version s
      else if c = CHR ''?'' \<or> c = CHR ''/'' \<or> c = CHR ''H'' \<or> c = CHR ''h'' then cmd_help s
      else if c = CHR ''G'' \<or> c = CHR ''g'' then cmd_gain fp gf s
      else if c = CHR ''K'' \<or> c = CHR ''k'' then cmd_kick s
      else if c = CHR '')'' then cmd_zero_offset fp s
      else if c = CHR ''!'' then cmd_unit_gain fp s
      else if c = CHR ''O'' \<or> c = CHR ''o'' then cmd_capture_offset fp s
      else if c = CHR ''P'' \<or> c = CHR ''p'' then cmd_parameters fp s
      else if c = CHR ''S'' \<or> c = CHR ''s'' then cmd_toggle s
      else cmd_unknown s)"

text \<open>
  Lines 196-199 and 285: \<open>rx\<close> holds the bytes waiting in the receive buffer when
  \<open>Serial.available()\<close> is asked. The first is the command, the rest is flushed.
\<close>

definition loop_serial :: "float_ops \<Rightarrow> string \<Rightarrow> int16 \<times> float32 \<Rightarrow> state \<Rightarrow> state" where
  "loop_serial fp rx gf s =
     (case rx of
        [] \<Rightarrow> s
      | c # _ \<Rightarrow> command fp gf (s\<lparr> cmdChar := c \<rparr>))"

text \<open>One pass of \<open>loop()\<close>.\<close>

definition loop :: "float_ops \<Rightarrow> int16 \<Rightarrow> string \<Rightarrow> int16 \<times> float32 \<Rightarrow> state \<Rightarrow> state" where
  "loop fp v rx gf s = loop_serial fp rx gf (loop_adc fp v s)"

text \<open>
  What happens to the sketch over time: the ADC raises its ready line (the interrupt
  routine runs), or \<open>loop()\<close> makes one pass.
\<close>

datatype event = Ready | Pass int16 string "int16 \<times> float32"

fun step :: "float_ops \<Rightarrow> state \<Rightarrow> event \<Rightarrow> state" where
  "step fp s Ready = ADCread s"
| "step fp s (Pass v rx gf) = loop fp v rx gf s"

definition run :: "float_ops \<Rightarrow> state \<Rightarrow> event list \<Rightarrow> state" where
  "run fp s es = foldl (step fp) s es"

text \<open>
  Feeding the samples \<open>xs\<close>: for each sample the ready line rises and the next pass of
  \<open>loop()\<close> observes the flag and reads it; nothing arrives on the serial line.
\<close>

definition feed :: "int16 list \<Rightarrow> event list" where
  "feed xs = concat (map (\<lambda>x. [Ready, Pass x [] (0, lit_0_0)]) xs)"

section \<open>Notions used to state the properties\<close>

text \<open>The window after the samples \<open>xs\<close> went through lines 161-166, one after the other.\<close>

definition collect :: "state \<Rightarrow> int16 list \<Rightarrow> state" where
  "collect s xs = foldl (\<lambda>s x. accumulate x s) s xs"

text \<open>A window that holds no sample yet: the values of lines 188-191.\<close>

definition window_fresh :: "state \<Rightarrow> bool" where
  "window_fresh s \<longleftrightarrow>
     sample s = 0 \<and> ADCValSum s = 0 \<and> ADCHigh s = - 32768 \<and> ADCLow s = 32767"

text \<open>A window that is open: its count is in \<open>[0, N)\<close>.\<close>

definition window_open :: "state \<Rightarrow> bool" where
  "window_open s \<longleftrightarrow> 0 \<le>s sample s \<and> sample s <s nSample"

text \<open>The part of the state that makes up the window, with the raw sum and the ready flag.\<close>

definition window_of :: "state \<Rightarrow> int16 \<times> long32 \<times> long32 \<times> long32 \<times> long32 \<times> bool" where
  "window_of s = (sample s, ADCValSum s, ADCHigh s, ADCLow s, ADCVal0 s, gotADCValue s)"

text \<open>The calibration state: the constants, the values derived from them, and the store.\<close>

definition calibration_of :: "state \<Rightarrow> long32 \<times> float32 \<times> float32 \<times> float32 \<times> eeprom_mem" where
  "calibration_of s = (ADCOffset s, fADCOffset s, ADCCal s, VScale s, eeprom s)"

text \<open>
  The reading of line 171 for the accumulated window \<open>w\<close>: the sum plus the offset sum,
  divided by the count as \<open>long\<close>, converted to \<open>float\<close> and scaled.
\<close>

definition amps_of :: "float_ops \<Rightarrow> state \<Rightarrow> float32" where
  "amps_of fp w = fmul fp (VScale w)
     (float_of_long fp (long_div (ADCValSum w + ADCOffset w) (scast (sample w))))"

text \<open>
  The float arithmetic is a parameter of every theorem. Closed examples need one
  instance of it to run with: this one works on the bit patterns as integers, which the
  library's operations do not. No theorem depends on what it computes.
\<close>

definition example_ops :: float_ops where
  "example_ops = \<lparr> fmul = (\<lambda>a b. Float (bits a * bits b)),
                    fdiv = (\<lambda>a b. Float (bits a div bits b)),
                    fadd = (\<lambda>a b. Float (bits a + bits b)),
                    fsub = (\<lambda>a b. Float (bits a - bits b)),
                    fneg = (\<lambda>a. Float (- bits a)),
                    fless = (\<lambda>a b. bits a <s bits b),
                    of_long = Float \<rparr>"

text \<open>
  A bound check to run examples of the scale-factor entry with, in the manner of
  \<open>example_ops\<close>: the bit pattern, read as an integer, is at most the bound.
\<close>

definition example_within :: "float32 \<Rightarrow> int16 \<Rightarrow> bool" where
  "example_within v bound \<longleftrightarrow> bits v \<le> ucast bound"

text \<open>An erased EEPROM: every byte reads 0xFF.\<close>

definition erased :: eeprom_mem where
  "erased = (\<lambda>_. 0xFF)"

text \<open>A store that was programmed before: the sentinel, an offset sum and a scale factor.\<close>

definition programmed :: "long32 \<Rightarrow> float32 \<Rightarrow> eeprom_mem" where
  "programmed off cal =
     EEPROM_put_float ADCCalAddr cal
       (EEPROM_put_long ADCOffsetAddr off
         (EEPROM_put_int EEPROMProgrammedFlagAddr EEPROMFlag erased))"

text \<open>
  The sketch booted on a store that holds the offset sum 430 and the scale factor 1.0,
  after the command \<open>S\<close> has turned logging on.
\<close>

definition logging_boot :: state where
  "logging_boot =
     run example_ops (setup_sketch example_ops (power_on (programmed 430 lit_1_0)))
       [Pass 0 ''S'' (0, lit_0_0)]"

section \<open>EEPROM: what is read is what was written\<close>

lemma bit_le_word:
  "bit (le_word bs :: 'a::len word) n \<longleftrightarrow>
     n < LENGTH('a) \<and> n div 8 < length bs \<and> bit (bs ! (n div 8)) (n mod 8)"
proof (induction bs arbitrary: n)
  case Nil
  then show ?case by (simp add: le_word_def)
next
  case (Cons b bs)
  have step: "le_word (b # bs) = (ucast b OR push_bit 8 (le_word bs) :: 'a word)"
    by (simp add: le_word_def)
  show ?case
  proof (cases "n < 8")
    case True
    then show ?thesis
      by (auto simp add: step bit_or_iff bit_push_bit_iff bit_ucast_iff dest: bit_imp_le_length)
  next
    case False
    then have n: "n div 8 = Suc ((n - 8) div 8)" "n mod 8 = (n - 8) mod 8"
      by (simp_all add: le_div_geq le_mod_geq)
    from False have nb: "\<not> bit b n"
      by (auto dest: bit_imp_le_length)
    show ?thesis using False
      by (auto simp add: step bit_or_iff bit_push_bit_iff bit_ucast_iff nb Cons.IH n 
            simp del: bit_word_iff_drop_bit_and dest: bit_imp_le_length)
  qed
qed

lemma length_le_bytes [simp]: "length (le_bytes n w) = n"
  by (simp add: le_bytes_def)

lemma le_word_bytes:
  "LENGTH('a) \<le> 8 * k \<Longrightarrow> le_word (le_bytes k (w::'a::len word)) = w"
proof (rule bit_word_eqI)
  fix n assume k: "LENGTH('a) \<le> 8 * k" and n: "n < LENGTH('a)"
  then have "n div 8 < k" by (simp add: less_mult_imp_div_less mult.commute)
  then show "bit (le_word (le_bytes k w) :: 'a word) n = bit w n"
    using n by (simp add: bit_le_word le_bytes_def bit_ucast_iff bit_drop_bit_eq)
qed

lemma get_put_same: "get_bytes a (length bs) (put_bytes a bs e) = bs"
  by (rule nth_equalityI) (simp_all add: get_bytes_def put_bytes_def)

lemma get_put_other:
  "a + n \<le> b \<or> b + length bs \<le> a \<Longrightarrow> get_bytes a n (put_bytes b bs e) = get_bytes a n e"
  by (auto simp add: get_bytes_def put_bytes_def)

lemma sint_succ: "sint (w::16 word) < 32767 \<Longrightarrow> sint (w + 1) = sint w + 1"
  using sint_ge[of w] by (simp add: sint_word_ariths signed_take_bit_int_eq_self_iff) 

lemma EEPROM_int_same: "EEPROM_get_int a (EEPROM_put_int a x e) = x"
  using get_put_same [of a "le_bytes sizeof_int x" e]
  by (simp add: EEPROM_get_int_def EEPROM_put_int_def le_word_bytes sizeof_int_def)

lemma EEPROM_long_same: "EEPROM_get_long a (EEPROM_put_long a x e) = x"
  using get_put_same [of a "le_bytes sizeof_long x" e]
  by (simp add: EEPROM_get_long_def EEPROM_put_long_def le_word_bytes sizeof_long_def)

lemma EEPROM_float_same: "EEPROM_get_float a (EEPROM_put_float a x e) = x"
  using get_put_same [of a "le_bytes sizeof_float (bits x)" e]
  by (simp add: EEPROM_get_float_def EEPROM_put_float_def le_word_bytes sizeof_float_def)

lemma addrs: "EEPROMProgrammedFlagAddr = 0" "ADCCalAddr = 2" "ADCOffsetAddr = 6"
  by (simp_all add: EEPROMProgrammedFlagAddr_def ADCCalAddr_def ADCOffsetAddr_def
        sizeof_int_def sizeof_float_def)

lemma EEPROM_long_after_float:
  "EEPROM_get_long ADCOffsetAddr (EEPROM_put_float ADCCalAddr x e) = EEPROM_get_long ADCOffsetAddr e"
  by (simp add: EEPROM_get_long_def EEPROM_put_float_def get_put_other addrs
        sizeof_long_def sizeof_float_def)

lemma EEPROM_float_after_long:
  "EEPROM_get_float ADCCalAddr (EEPROM_put_long ADCOffsetAddr x e) = EEPROM_get_float ADCCalAddr e"
  by (simp add: EEPROM_get_float_def EEPROM_put_long_def get_put_other addrs
        sizeof_long_def sizeof_float_def)

lemma EEPROM_int_after_long:
  "EEPROM_get_int EEPROMProgrammedFlagAddr (EEPROM_put_long ADCOffsetAddr x e)
     = EEPROM_get_int EEPROMProgrammedFlagAddr e"
  by (simp add: EEPROM_get_int_def EEPROM_put_long_def get_put_other addrs
        sizeof_long_def sizeof_int_def)

lemma EEPROM_int_after_float:
  "EEPROM_get_int EEPROMProgrammedFlagAddr (EEPROM_put_float ADCCalAddr x e)
     = EEPROM_get_int EEPROMProgrammedFlagAddr e"
  by (simp add: EEPROM_get_int_def EEPROM_put_float_def get_put_other addrs
        sizeof_float_def sizeof_int_def)

lemmas EEPROM_simps = EEPROM_int_same EEPROM_long_same EEPROM_float_same
  EEPROM_long_after_float EEPROM_float_after_long EEPROM_int_after_long EEPROM_int_after_float

lemma get_bytes_split:
  "b = a + m \<Longrightarrow> k = m + n \<Longrightarrow> get_bytes a k e = get_bytes a m e @ get_bytes b n e"
  using upt_add_eq_append [of a "a + m" n] by (simp add: get_bytes_def add.assoc)

lemma stored_flag_bytes: "get_bytes 0 2  (EEPROM_put_float ADCCalAddr c
      (EEPROM_put_long ADCOffsetAddr off (EEPROM_put_int EEPROMProgrammedFlagAddr f e))) = le_bytes 2 f"
    using get_put_same [of 0 "le_bytes 2 f" e]
    by (simp add: EEPROM_put_float_def EEPROM_put_long_def EEPROM_put_int_def addrs
        sizeof_int_def sizeof_long_def sizeof_float_def get_put_other)

lemma stored_cal_bytes: "get_bytes 2 4 (EEPROM_put_float ADCCalAddr c e) = le_bytes 4 (bits c)"
    using get_put_same [of 2 "le_bytes 4 (bits c)"]
    by (simp add: EEPROM_put_float_def addrs sizeof_float_def)

lemma stored_offset_bytes: "get_bytes 6 4 (EEPROM_put_float ADCCalAddr c
      (EEPROM_put_long ADCOffsetAddr off e)) = le_bytes 4 off"
    using get_put_same [of 6 "le_bytes 4 off"]
    by (simp add: EEPROM_put_float_def EEPROM_put_long_def addrs
        sizeof_long_def sizeof_float_def get_put_other)

lemma get_bytes_10: "get_bytes 0 10 e = get_bytes 0 2 e @ get_bytes 2 8 e"
    by (rule get_bytes_split) simp_all

lemma get_bytes_8: "get_bytes 2 8 e = get_bytes 2 4 e @ get_bytes 6 4 e"
    by (rule get_bytes_split) simp_all


lemma layout_bytes:
  "get_bytes 0 10 (EEPROM_put_float ADCCalAddr c
      (EEPROM_put_long ADCOffsetAddr off (EEPROM_put_int EEPROMProgrammedFlagAddr f e)))
   = le_bytes 2 f @ le_bytes 4 (bits c) @ le_bytes 4 off"
  by (simp add: get_bytes_10 [of "EEPROM_put_float ADCCalAddr c
      (EEPROM_put_long ADCOffsetAddr off (EEPROM_put_int EEPROMProgrammedFlagAddr f e))"] get_bytes_8 stored_flag_bytes stored_cal_bytes stored_offset_bytes)
lemma get_bytes_2: "get_bytes a 2 e = [e a, e (Suc a)]"
  by (simp add: get_bytes_def upt_conv_Cons)

lemma erased_flag: "EEPROM_get_int EEPROMProgrammedFlagAddr erased \<noteq> EEPROMFlag"
  by (simp add: erased_def EEPROM_get_int_def get_bytes_2 le_word_def sizeof_int_def EEPROMFlag_def)

section \<open>The sample aggregator\<close>

lemma sint_scast_int16: "sint (scast (v::int16) :: long32) = sint v"
  by (simp add: sint_up_scast is_up)

lemma accumulate_sample: "sample (accumulate v s) = sample s + 1"
  by (simp add: accumulate_def Let_def)

lemma accumulate_sum: "ADCValSum (accumulate v s) = ADCValSum s + scast v"
  by (simp add: accumulate_def Let_def)

lemma accumulate_high:
  "sint (ADCHigh (accumulate v s)) = max (sint (ADCHigh s)) (sint v)"
  by (simp add: accumulate_def Let_def word_sless_alt sint_scast_int16)

lemma accumulate_low:
  "sint (ADCLow (accumulate v s)) = min (sint (ADCLow s)) (sint v)"
  by (simp add: accumulate_def Let_def word_sless_alt sint_scast_int16)

lemma accumulate_frame:
  "ADCVal0 (accumulate v s) = ADCVal0 s"
  "ADCOffset (accumulate v s) = ADCOffset s"
  "fADCOffset (accumulate v s) = fADCOffset s"
  "ADCCal (accumulate v s) = ADCCal s"
  "VScale (accumulate v s) = VScale s"
  "Amps (accumulate v s) = Amps s"
  "SerialDisplay (accumulate v s) = SerialDisplay s"
  "eeprom (accumulate v s) = eeprom s"
  "serial_out (accumulate v s) = serial_out s"
  "AmpDisplay (accumulate v s) = AmpDisplay s"
  "negPin_level (accumulate v s) = negPin_level s"
  "LEDPin_level (accumulate v s) = LEDPin_level s"
  "adc_requests (accumulate v s) = adc_requests s"
  "cmdChar (accumulate v s) = cmdChar s"
  "gotADCValue (accumulate v s) = False"
  by (simp_all add: accumulate_def Let_def)

lemma collect_Nil [simp]: "collect s [] = s"
  by (simp add: collect_def)

lemma collect_snoc [simp]: "collect s (xs @ [x]) = accumulate x (collect s xs)"
  by (simp add: collect_def)

lemma collect_sample: "sample (collect s xs) = sample s + of_nat (length xs)"
  by (induction xs rule: rev_induct) (simp_all add: accumulate_sample)

lemma collect_sum: "ADCValSum (collect s xs) = ADCValSum s + word_of_int (sum_list (map sint xs))"
  by (induction xs rule: rev_induct) (simp_all add: accumulate_sum add.assoc)

lemma collect_high:
  "sint (ADCHigh (collect s xs)) = Max (insert (sint (ADCHigh s)) (sint ` set xs))"
proof (induction xs rule: rev_induct)
  case Nil
  then show ?case by simp
next
  case (snoc x xs)
  have "Max (insert (sint (ADCHigh s)) (sint ` set (xs @ [x])))
        = max (sint x) (Max (insert (sint (ADCHigh s)) (sint ` set xs)))"
    by (simp add: insert_commute)
  then show ?case using snoc by (simp add: accumulate_high max.commute)
qed

lemma collect_low:
  "sint (ADCLow (collect s xs)) = Min (insert (sint (ADCLow s)) (sint ` set xs))"
proof (induction xs rule: rev_induct)
  case Nil
  then show ?case by simp
next
  case (snoc x xs)
  have "Min (insert (sint (ADCLow s)) (sint ` set (xs @ [x])))
        = min (sint x) (Min (insert (sint (ADCLow s)) (sint ` set xs)))"
    by (simp add: insert_commute)
  then show ?case using snoc by (simp add: accumulate_low min.commute)
qed

lemma collect_frame:
  "ADCVal0 (collect s xs) = ADCVal0 s"
  "ADCOffset (collect s xs) = ADCOffset s"
  "fADCOffset (collect s xs) = fADCOffset s"
  "ADCCal (collect s xs) = ADCCal s"
  "VScale (collect s xs) = VScale s"
  "Amps (collect s xs) = Amps s"
  "SerialDisplay (collect s xs) = SerialDisplay s"
  "eeprom (collect s xs) = eeprom s"
  "serial_out (collect s xs) = serial_out s"
  "AmpDisplay (collect s xs) = AmpDisplay s"
  "negPin_level (collect s xs) = negPin_level s"
  "LEDPin_level (collect s xs) = LEDPin_level s"
  "adc_requests (collect s xs) = adc_requests s"
  "cmdChar (collect s xs) = cmdChar s"
  by (induction xs rule: rev_induct; simp add: accumulate_frame)+

lemma sint_int16_range: "- 32768 \<le> sint (v::int16) \<and> sint v \<le> 32767"
  using sint_ge[of v] sint_lt[of v] by simp

lemma sum_samples_bound:
  "- (32768 * int (length xs)) \<le> sum_list (map sint (xs::int16 list)) \<and>
   sum_list (map sint xs) \<le> 32767 * int (length xs)"
proof (induction xs)
  case Nil
  then show ?case by simp
next
  case (Cons x xs)
  then show ?case using sint_int16_range[of x] by simp
qed

lemma sint_long_of_int: "- 2147483648 \<le> k \<Longrightarrow> k < 2147483648 \<Longrightarrow> sint (word_of_int k :: long32) = k"
  by (simp add: sint_sbintrunc' signed_take_bit_int_eq_self)

lemma sint_int16_of_nat: "n < 32768 \<Longrightarrow> sint (of_nat n :: int16) = int n"
  using sint_sbintrunc' [where 'a=16, of "int n"] by (simp add: signed_take_bit_int_eq_self)

subsection \<open>Samples fed through the main loop\<close>

lemma accumulate_ADCread: "accumulate v (ADCread s) = accumulate v s"
  by (simp add: accumulate_def ADCread_def Let_def)

lemma loop_no_serial: "loop fp v [] gf s = loop_adc fp v s"
  by (simp add: loop_def loop_serial_def)

lemma feed_step:
  "run fp s (feed (xs @ [x])) =
     (let w = accumulate x (run fp s (feed xs))
      in if nSample \<le>s sample w then window_done fp w else w)"
  by (simp add: run_def feed_def loop_no_serial loop_adc_def ADCread_def accumulate_ADCread [unfolded ADCread_def] Let_def)

lemma feed_Nil [simp]: "run fp s (feed []) = s"
  by (simp add: run_def feed_def)

lemma collect_sample_sint:
  "0 \<le> sint (sample s) \<Longrightarrow> sint (sample s) + int (length xs) < 32768 \<Longrightarrow>
   sint (sample (collect s xs)) = sint (sample s) + int (length xs)"
proof (induction xs rule: rev_induct)
  case Nil
  then show ?case by simp
next
  case (snoc x xs)
  then have IH: "sint (sample (collect s xs)) = sint (sample s) + int (length xs)" by simp
  with snoc.prems have "sint (sample (collect s xs)) < 32767" by simp
  then show ?case using IH by (simp add: accumulate_sample sint_succ)
qed

lemma run_feed_open:
  "0 \<le> sint (sample s) \<Longrightarrow> sint (sample s) + int (length xs) < 430 \<Longrightarrow>
   run fp s (feed xs) = collect s xs"
proof (induction xs rule: rev_induct)
  case Nil
  then show ?case by simp
next
  case (snoc x xs)
  then have IH: "run fp s (feed xs) = collect s xs" by simp
  from snoc.prems have "sint (sample (collect s (xs @ [x]))) = sint (sample s) + int (length (xs @ [x]))"
    by (intro collect_sample_sint) simp_all
  with snoc.prems have "\<not> nSample \<le>s sample (accumulate x (collect s xs))"
    by (simp add: word_sle_eq nSample_def)
  then show ?case by (simp add: feed_step IH Let_def)
qed

lemma run_feed_complete:
  assumes "0 \<le> sint (sample s)" "sint (sample s) + int (length xs) = 430" "xs \<noteq> []"
  shows "run fp s (feed xs) = window_done fp (collect s xs)"
proof (cases xs rule: rev_cases)
  case Nil
  with assms show ?thesis by simp
next
  case (snoc ys y)
  with assms have opn: "run fp s (feed ys) = collect s ys"
    by (intro run_feed_open) simp_all
  from assms have "sint (sample (collect s xs)) = 430"
    by (simp add: collect_sample_sint)
  then have "nSample \<le>s sample (accumulate y (collect s ys))"
    using snoc by (simp add: word_sle_eq nSample_def)
  then show ?thesis using snoc by (simp add: feed_step opn Let_def)
qed


lemma run_feed_window:
  assumes "window_fresh s" "length xs = 430"
  shows "run fp s (feed xs) = window_done fp (collect s xs)"
proof -
  from assms have "xs \<noteq> []" by auto
  with assms show ?thesis
    by (intro run_feed_complete) (simp_all add: window_fresh_def)
qed

lemma run_append: "run fp s (es @ fs) = run fp (run fp s es) fs"
  by (simp add: run_def)

lemma feed_append: "feed (xs @ ys) = feed xs @ feed ys"
  by (simp add: feed_def)

subsection \<open>The completed window of a fresh start\<close>

lemma window_sample:
  "window_fresh s \<Longrightarrow> length xs = 430 \<Longrightarrow> sample (collect s xs) = 430"
  by (simp add: collect_sample window_fresh_def)

lemma window_sum:
  "window_fresh s \<Longrightarrow> ADCValSum (collect s xs) = word_of_int (sum_list (map sint xs))"
  by (simp add: collect_sum window_fresh_def)

lemma window_sum_sint:
  assumes "window_fresh s" "length xs = 430"
  shows "sint (ADCValSum (collect s xs)) = sum_list (map sint xs)"
proof -
  from sum_samples_bound [of xs] assms(2)
  have "- 2147483648 \<le> sum_list (map sint xs)" "sum_list (map sint xs) < 2147483648"
    by simp_all
  then show ?thesis using assms(1) by (simp add: window_sum sint_long_of_int)
qed

lemma window_high:
  assumes "window_fresh s" "xs \<noteq> []"
  shows "sint (ADCHigh (collect s xs)) = Max (sint ` set xs)"
proof -
  from assms(2) obtain x where x: "x \<in> set xs" by (cases xs) auto
  have "sint (- 32768 :: long32) \<le> sint x" using sint_int16_range [of x] by simp
  also have "sint x \<le> Max (sint ` set xs)" using x by simp
  finally have "max (sint (- 32768 :: long32)) (Max (sint ` set xs)) = Max (sint ` set xs)"
    by simp
  then show ?thesis using assms by (simp add: collect_high window_fresh_def)
qed

lemma window_low:
  assumes "window_fresh s" "xs \<noteq> []"
  shows "sint (ADCLow (collect s xs)) = Min (sint ` set xs)"
proof -
  from assms(2) obtain x where x: "x \<in> set xs" by (cases xs) auto
  have "Min (sint ` set xs) \<le> sint x" using x by simp
  also have "sint x \<le> sint (32767 :: long32)" using sint_int16_range [of x] by simp
  finally have "min (sint (32767 :: long32)) (Min (sint ` set xs)) = Min (sint ` set xs)"
    by simp
  then show ?thesis using assms by (simp add: collect_low window_fresh_def)
qed

subsection \<open>What the completion of a window leaves behind\<close>

lemma window_done_fields:
  "Amps (window_done fp w) = amps_of fp w"
  "negPin_level (window_done fp w) = fless fp (amps_of fp w) lit_0_0"
  "AmpDisplay (window_done fp w) =
     (if fless fp (amps_of fp w) lit_0_0 then fneg fp (amps_of fp w) else amps_of fp w)"
  "ADCVal0 (window_done fp w) = ADCValSum w"
  "LEDPin_level (window_done fp w) = (\<not> LEDPin_level w)"
  "ADCOffset (window_done fp w) = ADCOffset w"
  "fADCOffset (window_done fp w) = fADCOffset w"
  "ADCCal (window_done fp w) = ADCCal w"
  "VScale (window_done fp w) = VScale w"
  "SerialDisplay (window_done fp w) = SerialDisplay w"
  "eeprom (window_done fp w) = eeprom w"
  "gotADCValue (window_done fp w) = gotADCValue w"
  "window_fresh (window_done fp w)"
  by (simp_all add: window_done_def compute_reading_def reset_window_def Print_Data_def
        say_def Let_def amps_of_def window_fresh_def)

lemma window_done_out:
  "serial_out (window_done fp w) = serial_out w @
     (if SerialDisplay w then
        [Fmt_d 6 (long_div (ADCValSum w + ADCOffset w) (scast (sample w))), Txt '' , '',
         Fmt_f 8 4 (amps_of fp w), Txt '' , '', Fmt_f 8 4 (highVolts fp w), Txt '' , '',
         Fmt_f 8 4 (lowVolts fp w), Txt '' , '',
         Fmt_f 8 4 (fsub fp (highVolts fp w) (lowVolts fp w)), NL]
      else [])"
  by (simp add: window_done_def compute_reading_def reset_window_def Print_Data_def
        record_items_def highVolts_def lowVolts_def say_def Let_def amps_of_def)

section \<open>Boot\<close>

lemma setup_fresh: "window_fresh (setup_sketch fp (power_on e))"
  by (simp add: setup_sketch_def load_values_def load_defaults_def power_on_def say_def
        prompt_def Let_def window_fresh_def)




lemma setup_unprogrammed:
  assumes "EEPROM_get_int EEPROMProgrammedFlagAddr e \<noteq> EEPROMFlag"
  shows "setup_sketch fp (power_on e) =
     (power_on e) \<lparr> ADCHigh := - 32768, ADCLow := 32767,
       VScale := calc_VScale fp lit_1_0, ADCCal := lit_1_0, ADCOffset := 0,
       fADCOffset := calc_fADCOffset fp 0,
       eeprom := EEPROM_put_float ADCCalAddr lit_1_0
         (EEPROM_put_long ADCOffsetAddr 0 (EEPROM_put_int EEPROMProgrammedFlagAddr EEPROMFlag e)),
       serial_out := [Txt vers, NL, Txt ''Loading defaults to EEPROM...'', Txt '' Done.'', NL,
                      Txt ''(Press ? for menu)'', NL] @ prompt_items,
       adc_requests := 1 \<rparr>"
  using assms
  by (simp add: setup_sketch_def load_values_def load_defaults_def power_on_def say_def
        prompt_def Let_def EEPROM_simps)

lemma setup_programmed:
  assumes "EEPROM_get_int EEPROMProgrammedFlagAddr e = EEPROMFlag"
  shows "setup_sketch fp (power_on e) =
     (power_on e) \<lparr> ADCHigh := - 32768, ADCLow := 32767,
       VScale := calc_VScale fp (EEPROM_get_float ADCCalAddr e),
       ADCCal := EEPROM_get_float ADCCalAddr e, ADCOffset := EEPROM_get_long ADCOffsetAddr e,
       fADCOffset := calc_fADCOffset fp (EEPROM_get_long ADCOffsetAddr e),
       serial_out := [Txt vers, NL, Txt ''(Press ? for menu)'', NL] @ prompt_items,
       adc_requests := 1 \<rparr>"
  using assms
  by (simp add: setup_sketch_def load_values_def power_on_def say_def prompt_def Let_def)

lemma setup_idle:
  "ADCVal0 (setup_sketch fp (power_on e)) = 0"
  "\<not> gotADCValue (setup_sketch fp (power_on e))"
  "\<not> SerialDisplay (setup_sketch fp (power_on e))"
  by (simp_all add: setup_sketch_def load_values_def load_defaults_def power_on_def say_def
        prompt_def Let_def)

section \<open>The command interpreter\<close>

lemma say_out [simp]: "serial_out (say xs s) = serial_out s @ xs"
  by (simp add: say_def)

lemma say_window [simp]: "window_of (say xs s) = window_of s"
  by (simp add: say_def window_of_def)

lemma say_calibration [simp]: "calibration_of (say xs s) = calibration_of s"
  by (simp add: say_def calibration_of_def)

lemma say_cmdChar [simp]: "cmdChar (say xs s) = cmdChar s"
  by (simp add: say_def)

lemma Set_Scale_window: "window_of (Set_Scale fp gf s) = window_of s"
  by (simp add: Set_Scale_def Let_def window_of_def say_def)

lemma Set_Scale_out:
  "serial_out (Set_Scale fp gf s) = serial_out s @
     [Txt ''Enter scale factor'', Dflt (ADCCal s), NL] @
     (if 0 <s fst gf then [Txt ''Scale factor (ADCCal) = '', NumFloat (snd gf) 4, NL]
      else [Txt ''Scale factor not updated = '', NumFloat (ADCCal s) 4, NL])"
  by (simp add: Set_Scale_def Let_def say_def)

lemma Set_Scale_rejected:
  "\<not> 0 <s fst gf \<Longrightarrow>
   Set_Scale fp gf s = say [Txt ''Enter scale factor'', Dflt (ADCCal s), NL,
                            Txt ''Scale factor not updated = '', NumFloat (ADCCal s) 4, NL] s"
  by (simp add: Set_Scale_def Let_def say_def)

lemma handlers_window:
  "window_of (cmd_version s) = window_of s"
  "window_of (cmd_help s) = window_of s"
  "window_of (cmd_gain fp gf s) = window_of s"
  "window_of (cmd_kick s) = window_of s"
  "window_of (cmd_zero_offset fp s) = window_of s"
  "window_of (cmd_unit_gain fp s) = window_of s"
  "window_of (cmd_capture_offset fp s) = window_of s"
  "window_of (cmd_parameters fp s) = window_of s"
  "window_of (cmd_toggle s) = window_of s"
  "window_of (cmd_unknown s) = window_of s"
  by (simp_all add: cmd_version_def cmd_help_def cmd_gain_def cmd_kick_def cmd_zero_offset_def
        cmd_unit_gain_def cmd_capture_offset_def cmd_parameters_def cmd_toggle_def
        cmd_unknown_def prompt_def echo_def Display_parameters_def Display_Header_def
        Set_Scale_window Let_def, simp_all add: window_of_def say_def)

lemma command_window: "window_of (command fp gf s) = window_of s"
  by (simp add: command_def Let_def handlers_window)

lemma loop_serial_window: "window_of (loop_serial fp rx gf s) = window_of s"
  by (simp add: loop_serial_def command_window split: list.split, simp add: window_of_def)

lemma loop_idle: "\<not> gotADCValue s \<Longrightarrow> loop fp v rx gf s = loop_serial fp rx gf s"
  by (simp add: loop_def loop_adc_def)

lemma prompt_out: "serial_out (prompt s) = serial_out s @ prompt_items"
  by (simp add: prompt_def)

lemma handlers_out:
  "serial_out (cmd_version s) =
     serial_out s @ [NL, Txt vers, NL, Txt ''(Press ? for menu)'', NL] @ prompt_items"
  "serial_out (cmd_help s) = serial_out s @ ([Chr (cmdChar s), NL] @ help_items) @ prompt_items"
  "serial_out (cmd_gain fp gf s) = serial_out s @
     ([Chr (cmdChar s), NL, Txt ''Enter scale factor'', Dflt (ADCCal s), NL] @
      (if 0 <s fst gf then [Txt ''Scale factor (ADCCal) = '', NumFloat (snd gf) 4, NL]
       else [Txt ''Scale factor not updated = '', NumFloat (ADCCal s) 4, NL])) @ prompt_items"
  "serial_out (cmd_kick s) = serial_out s @ [Chr (cmdChar s), NL, Txt ''Kicked ADC.'', NL] @ prompt_items"
  "serial_out (cmd_zero_offset fp s) =
     serial_out s @ [Chr (cmdChar s), NL, Txt ''Offset set to zero.'', NL] @ prompt_items"
  "serial_out (cmd_unit_gain fp s) =
     serial_out s @ [Chr (cmdChar s), NL, Txt ''Gain set to one.'', NL] @ prompt_items"
  "serial_out (cmd_capture_offset fp s) =
     serial_out s @ [Chr (cmdChar s), NL, Txt ''Offset captured and saved.'', NL] @ prompt_items"
  "serial_out (cmd_parameters fp s) =
     serial_out s @ ([Chr (cmdChar s), NL] @ parameter_items fp s) @ prompt_items"
  "serial_out (cmd_unknown s) = serial_out s @
     ((if 32 < char_code (cmdChar s) \<and> char_code (cmdChar s) < 127
       then [Chr (cmdChar s)] else [NumByte (of_char (cmdChar s))]) @ [Txt '' ??'']) @ prompt_items"
  "serial_out (cmd_toggle s) = serial_out s @ header_items (\<not> SerialDisplay s)"
  by (simp_all add: cmd_version_def cmd_help_def cmd_gain_def cmd_kick_def cmd_zero_offset_def
        cmd_unit_gain_def cmd_capture_offset_def cmd_parameters_def cmd_toggle_def
        cmd_unknown_def prompt_def echo_def Display_parameters_def Display_Header_def
        Set_Scale_out Let_def, simp_all add: say_def parameter_items_def)

lemma command_ends_with_prompt:
  assumes "cmdChar s \<noteq> CHR ''S''" "cmdChar s \<noteq> CHR ''s''"
  shows "\<exists>mid. serial_out (command fp gf s) = serial_out s @ mid @ prompt_items"
proof -
  have h: "\<exists>mid. serial_out (cmd_version s) = serial_out s @ mid @ prompt_items"
    "\<exists>mid. serial_out (cmd_help s) = serial_out s @ mid @ prompt_items"
    "\<exists>mid. serial_out (cmd_gain fp gf s) = serial_out s @ mid @ prompt_items"
    "\<exists>mid. serial_out (cmd_kick s) = serial_out s @ mid @ prompt_items"
    "\<exists>mid. serial_out (cmd_zero_offset fp s) = serial_out s @ mid @ prompt_items"
    "\<exists>mid. serial_out (cmd_unit_gain fp s) = serial_out s @ mid @ prompt_items"
    "\<exists>mid. serial_out (cmd_capture_offset fp s) = serial_out s @ mid @ prompt_items"
    "\<exists>mid. serial_out (cmd_parameters fp s) = serial_out s @ mid @ prompt_items"
    "\<exists>mid. serial_out (cmd_unknown s) = serial_out s @ mid @ prompt_items"
    by (rule exI, rule handlers_out)+
  show ?thesis
    using assms by (simp add: command_def Let_def h)
qed

lemma cmd_toggle_state:
  "SerialDisplay (cmd_toggle s) = (\<not> SerialDisplay s)"
  "calibration_of (cmd_toggle s) = calibration_of s"
  by (simp_all add: cmd_toggle_def Display_Header_def say_def calibration_of_def)

lemma command_toggle:
  "cmdChar s = CHR ''S'' \<or> cmdChar s = CHR ''s'' \<Longrightarrow> command fp gf s = cmd_toggle s"
  by (elim disjE) (simp_all add: command_def Let_def)

lemma command_capture:
  "cmdChar s = CHR ''O'' \<or> cmdChar s = CHR ''o'' \<Longrightarrow> command fp gf s = cmd_capture_offset fp s"
  by (elim disjE) (simp_all add: command_def Let_def)

lemma cmd_capture_offset_state:
  "ADCOffset (cmd_capture_offset fp s) = - ADCVal0 s"
  "fADCOffset (cmd_capture_offset fp s) = calc_fADCOffset fp (- ADCVal0 s)"
  "eeprom (cmd_capture_offset fp s) = EEPROM_put_long ADCOffsetAddr (- ADCVal0 s) (eeprom s)"
  "ADCCal (cmd_capture_offset fp s) = ADCCal s"
  "VScale (cmd_capture_offset fp s) = VScale s"
  by (simp_all add: cmd_capture_offset_def prompt_def echo_def say_def Let_def)

lemma header_no_prompt: "Txt ''> '' \<notin> set (header_items b)"
  by (simp add: header_items_def rule_line_def title_line_def)

lemma getFloat_rejects:
  "(case entry of None \<Rightarrow> True | Some v \<Rightarrow> \<not> within v bound) \<Longrightarrow>
   getFloat within entry aflt bound = (0, aflt)"
  by (cases entry) (simp_all add: getFloat_def)

section \<open>Further facts about runs and about the arithmetic\<close>

lemma collect_idle: "\<not> gotADCValue s \<Longrightarrow> \<not> gotADCValue (collect s xs)"
  by (induction xs rule: rev_induct) (simp_all add: accumulate_frame)

lemma pass_idle:
  "\<not> gotADCValue s \<Longrightarrow> run fp s [Pass v (c # rest) gf] = command fp gf (s\<lparr> cmdChar := c \<rparr>)"
  by (simp add: run_def loop_idle loop_serial_def)

lemma run_feed_next:
  assumes "window_fresh s" "length xs = 430" "length ys < 430"
  shows "run fp s (feed xs @ feed ys) = collect (window_done fp (collect s xs)) ys"
proof -
  have "window_fresh (window_done fp (collect s xs))" by (rule window_done_fields)
  then have "run fp (window_done fp (collect s xs)) (feed ys)
             = collect (window_done fp (collect s xs)) ys"
    using assms(3) by (intro run_feed_open) (simp_all add: window_fresh_def)
  then show ?thesis
    using assms by (simp add: run_append run_feed_window)
qed

lemma sint_neg_long:
  "- 2147483648 < k \<Longrightarrow> k < 2147483648 \<Longrightarrow> sint (- (word_of_int k :: long32)) = - k"
  using sint_long_of_int [of "- k"] by simp

lemma sdiv_430_range:
  "- 2147483648 \<le> k \<Longrightarrow> k < 2147483648 \<Longrightarrow>
   - 2147483648 \<le> k sdiv 430 \<and> k sdiv (430::int) < 2147483648"
proof (cases "0 \<le> k")
  case True
  then have "0 \<le> k div 430" "k div 430 \<le> k"
    by (simp_all add: pos_imp_zdiv_nonneg_iff int_div_le_self)
  moreover assume "k < 2147483648"
  ultimately show ?thesis using True by (simp add: signed_divide_int_def sgn_if)
next
  case False
  then have "0 \<le> (- k) div 430" "(- k) div 430 \<le> - k"
    by (simp_all add: pos_imp_zdiv_nonneg_iff int_div_le_self)
  moreover assume "- 2147483648 \<le> k"
  ultimately show ?thesis using False by (simp add: signed_divide_int_def sgn_if)
qed

lemma long_div_430: "sint (long_div a 430) = sint a sdiv 430"
  using sdiv_430_range [of "sint a"] sint_ge [of a] sint_lt [of a]
  by (simp add: long_div_def sint_long_of_int)

lemma scast_floor:
  "\<not> (- 32768 :: long32) <s scast (v::int16) \<Longrightarrow> (scast v :: long32) = - 32768"
  using sint_int16_range [of v]
  by (intro signed_word_eqI [where 'a = int]) (simp add: word_sless_alt sint_scast_int16)

lemma scast_ceiling:
  "\<not> scast (v::int16) <s (32767 :: long32) \<Longrightarrow> (scast v :: long32) = 32767"
  using sint_int16_range [of v]
  by (intro signed_word_eqI [where 'a = int]) (simp add: word_sless_alt sint_scast_int16)

lemma first_sample:
  assumes "window_fresh s"
  shows "ADCHigh (accumulate v s) = scast v" "ADCLow (accumulate v s) = scast v"
    "sample (accumulate v s) = 1" "ADCValSum (accumulate v s) = scast v"
proof -
  from assms have f: "sample s = 0" "ADCValSum s = 0" "ADCHigh s = - 32768" "ADCLow s = 32767"
    by (simp_all add: window_fresh_def)
  show "ADCHigh (accumulate v s) = scast v"
  proof (cases "(- 32768 :: long32) <s scast v")
    case True
    then show ?thesis by (simp add: accumulate_def Let_def f)
  next
    case False
    then have "(scast v :: long32) = - 32768" by (rule scast_floor)
    with False show ?thesis by (simp add: accumulate_def Let_def f)
  qed
  show "ADCLow (accumulate v s) = scast v"
  proof (cases "scast v <s (32767 :: long32)")
    case True
    then show ?thesis by (simp add: accumulate_def Let_def f)
  next
    case False
    then have "(scast v :: long32) = 32767" by (rule scast_ceiling)
    with False show ?thesis by (simp add: accumulate_def Let_def f)
  qed
  show "sample (accumulate v s) = 1" by (simp add: accumulate_sample f)
  show "ADCValSum (accumulate v s) = scast v" by (simp add: accumulate_sum f)
qed

subsection \<open>The window stays open\<close>

lemma window_of_sample: "window_of a = window_of b \<Longrightarrow> sample a = sample b"
  by (simp add: window_of_def)

lemma fresh_open: "window_fresh s \<Longrightarrow> window_open s"
  by (simp add: window_fresh_def window_open_def nSample_def word_sle_eq word_sless_alt)

lemma loop_adc_open:
  assumes "window_open s"
  shows "window_open (loop_adc fp v s)"
proof (cases "gotADCValue s")
  case False
  with assms show ?thesis by (simp add: loop_adc_def)
next
  case True
  from assms have r: "0 \<le> sint (sample s)" "sint (sample s) < 430"
    by (simp_all add: window_open_def word_sle_eq word_sless_alt nSample_def)
  then have n: "sint (sample (accumulate v s)) = sint (sample s) + 1"
    by (simp add: accumulate_sample sint_succ)
  show ?thesis
  proof (cases "nSample \<le>s sample (accumulate v s)")
    case True
    have "window_fresh (window_done fp (accumulate v s))" by (rule window_done_fields)
    then show ?thesis
      using True \<open>gotADCValue s\<close> by (simp add: loop_adc_def fresh_open)
  next
    case False
    then have "window_open (accumulate v s)"
      using r n by (simp add: window_open_def word_sle_eq word_sless_alt nSample_def)
    then show ?thesis
      using False \<open>gotADCValue s\<close> by (simp add: loop_adc_def)
  qed
qed

lemma loop_open: "window_open s \<Longrightarrow> window_open (loop fp v rx gf s)"
  using window_of_sample [OF loop_serial_window [of fp rx gf "loop_adc fp v s"]]
    loop_adc_open [of s fp v]
  by (simp add: loop_def window_open_def)

lemma step_open: "window_open s \<Longrightarrow> window_open (step fp s ev)"
  by (cases ev) (simp_all add: loop_open, simp add: ADCread_def window_open_def)

lemma loop_completes:
  assumes "gotADCValue s" "sample s + 1 = nSample"
  shows "window_of (loop fp v rx gf s) = (0, 0, - 32768, 32767, ADCValSum s + scast v, False)"
proof -
  have n: "nSample \<le>s sample (accumulate v s)"
    using assms(2) by (simp add: accumulate_sample)
  have "window_of (loop fp v rx gf s) = window_of (window_done fp (accumulate v s))"
    using assms(1) n by (simp add: loop_def loop_adc_def loop_serial_window)
  also have "\<dots> = (0, 0, - 32768, 32767, ADCValSum s + scast v, False)"
    using window_done_fields(13) [of fp "accumulate v s"]
    by (simp add: window_of_def window_fresh_def window_done_fields accumulate_sum accumulate_frame)
  finally show ?thesis .
qed

subsection \<open>The reading and the log record of a completed window\<close>

lemma programmed_reads:
  "EEPROM_get_int EEPROMProgrammedFlagAddr (programmed off cal) = EEPROMFlag"
  "EEPROM_get_long ADCOffsetAddr (programmed off cal) = off"
  "EEPROM_get_float ADCCalAddr (programmed off cal) = cal"
  by (simp_all add: programmed_def EEPROM_simps)

lemma logging_boot_eq:
  "logging_boot = cmd_toggle ((setup_sketch example_ops (power_on (programmed 430 lit_1_0)))
                               \<lparr> cmdChar := CHR ''S'' \<rparr>)"
  by (simp add: logging_boot_def pass_idle setup_idle command_toggle)

lemma logging_boot_facts:
  "window_fresh logging_boot" "SerialDisplay logging_boot" "ADCOffset logging_boot = 430"
proof -
  let ?b = "setup_sketch example_ops (power_on (programmed 430 lit_1_0))"
  have f: "window_fresh ?b" by (rule setup_fresh)
  have w: "window_of logging_boot = window_of ?b"
    by (simp add: logging_boot_eq handlers_window, simp add: window_of_def)
  show "window_fresh logging_boot"
    using f w by (simp add: window_fresh_def window_of_def)
  show "SerialDisplay logging_boot"
    by (simp add: logging_boot_eq cmd_toggle_state setup_idle)
  have "calibration_of logging_boot = calibration_of ?b"
    by (simp add: logging_boot_eq cmd_toggle_state, simp add: calibration_of_def)
  then show "ADCOffset logging_boot = 430"
    by (simp add: calibration_of_def setup_programmed programmed_reads)
qed

lemma long_div_example: "long_div 430 430 = 1" "long_div 0 430 = 0"
  by (simp_all add: long_div_def signed_divide_int_def)

lemma window_reading:
  assumes "window_fresh s" and "length xs = 430"
  shows "Amps (run fp s (feed xs)) =
           fmul fp (VScale s) (float_of_long fp
             (long_div (ADCValSum (collect s xs) + ADCOffset s) (scast nSample)))"
    and "negPin_level (run fp s (feed xs)) = fless fp (Amps (run fp s (feed xs))) lit_0_0"
    and "AmpDisplay (run fp s (feed xs)) =
           (if fless fp (Amps (run fp s (feed xs))) lit_0_0
            then fneg fp (Amps (run fp s (feed xs))) else Amps (run fp s (feed xs)))"
    and "ADCVal0 (run fp s (feed xs)) = ADCValSum (collect s xs)"
  using assms
  by (simp_all add: run_feed_window window_done_fields amps_of_def collect_frame window_sample
        nSample_def)

lemma window_record:
  assumes "window_fresh s" and "length xs = 430"
  shows "serial_out (run fp s (feed xs)) = serial_out s @
     (if SerialDisplay s then
        [Fmt_d 6 (long_div (ADCValSum (collect s xs) + ADCOffset s) (scast nSample)), Txt '' , '',
         Fmt_f 8 4 (Amps (run fp s (feed xs))), Txt '' , '',
         Fmt_f 8 4 (highVolts fp (collect s xs)), Txt '' , '',
         Fmt_f 8 4 (lowVolts fp (collect s xs)), Txt '' , '',
         Fmt_f 8 4 (fsub fp (highVolts fp (collect s xs)) (lowVolts fp (collect s xs))), NL]
      else [])"
  using assms
  by (simp add: run_feed_window window_done_out window_done_fields amps_of_def collect_frame
        window_sample nSample_def)

section \<open>The claims\<close>

subsection \<open>C1: the calibrated reading of a completed window\<close>

text \<open>
  C1. For every window completed by N = 430 samples, with \<open>w\<close> the window as
  accumulated: the reading is \<open>Amps = VScale * ((w.sum + ADCOffset) / w.count)\<close>, where
  the sum plus the offset sum is divided by the count as integers (C's truncating
  division on \<open>long\<close>) before the quotient is converted to \<open>float\<close> and scaled; the
  sign LED is driven high exactly when \<open>Amps < 0.0\<close>, and the display then shows
  \<open>-Amps\<close>, else \<open>Amps\<close>; and the high and low values of the log record are
  \<open>VScale * (float(w.max) + fADCOffset)\<close> and \<open>VScale * (float(w.min) + fADCOffset)\<close>.
  They are computed in \<open>Print_Data\<close> only, so they exist when logging is on.
\<close>

theorem C1_reading:
  assumes "window_fresh s" and "length xs = 430"
  shows "let w = collect s xs; s' = run fp s (feed xs);
             mean = long_div (ADCValSum w + ADCOffset s) (scast (sample w));
             high = fmul fp (VScale s) (fadd fp (float_of_long fp (ADCHigh w)) (fADCOffset s));
             low = fmul fp (VScale s) (fadd fp (float_of_long fp (ADCLow w)) (fADCOffset s))
         in sample w = nSample
          \<and> sint mean = sint (ADCValSum w + ADCOffset s) sdiv 430
          \<and> Amps s' = fmul fp (VScale s) (float_of_long fp mean)
          \<and> negPin_level s' = fless fp (Amps s') lit_0_0
          \<and> AmpDisplay s' = (if fless fp (Amps s') lit_0_0 then fneg fp (Amps s') else Amps s')
          \<and> (SerialDisplay s \<longrightarrow>
                serial_out s' = serial_out s @
                  [Fmt_d 6 mean, Txt '' , '', Fmt_f 8 4 (Amps s'), Txt '' , '',
                   Fmt_f 8 4 high, Txt '' , '', Fmt_f 8 4 low, Txt '' , '',
                   Fmt_f 8 4 (fsub fp high low), NL])"
proof -
  have n: "sample (collect s xs) = nSample" "scast nSample = (430 :: long32)"
    using assms by (simp_all add: window_sample nSample_def)
  have hl: "highVolts fp (collect s xs)
              = fmul fp (VScale s) (fadd fp (float_of_long fp (ADCHigh (collect s xs))) (fADCOffset s))"
    "lowVolts fp (collect s xs)
              = fmul fp (VScale s) (fadd fp (float_of_long fp (ADCLow (collect s xs))) (fADCOffset s))"
    by (simp_all add: highVolts_def lowVolts_def collect_frame)
  show ?thesis
    unfolding Let_def n
    using window_reading [OF assms, of fp] window_record [OF assms, of fp]
    by (simp add: n hl long_div_430)
qed

text \<open>
  The hypotheses of C1 hold in \<open>logging_boot\<close> fed 430 samples of value 0: with the
  stored offset sum 430 the integer mean is 1.
\<close>

theorem C1_reading_witness:
  "window_fresh logging_boot \<and> length (replicate 430 (0::int16)) = 430
   \<and> SerialDisplay logging_boot
   \<and> (let w = collect logging_boot (replicate 430 0);
          s' = run example_ops logging_boot (feed (replicate 430 0));
          high = fmul example_ops (VScale logging_boot)
                   (fadd example_ops (float_of_long example_ops (ADCHigh w)) (fADCOffset logging_boot));
          low = fmul example_ops (VScale logging_boot)
                  (fadd example_ops (float_of_long example_ops (ADCLow w)) (fADCOffset logging_boot))
      in Amps s' = fmul example_ops (VScale logging_boot) (float_of_long example_ops 1)
       \<and> negPin_level s' = fless example_ops (Amps s') lit_0_0
       \<and> serial_out s' = serial_out logging_boot @
             [Fmt_d 6 1, Txt '' , '', Fmt_f 8 4 (Amps s'), Txt '' , '',
              Fmt_f 8 4 high, Txt '' , '', Fmt_f 8 4 low, Txt '' , '',
              Fmt_f 8 4 (fsub example_ops high low), NL])"
  using C1_reading [where s = logging_boot and xs = "replicate 430 0" and fp = example_ops]
    logging_boot_facts
  by (auto simp add: Let_def window_sum sum_list_replicate window_sample long_div_example)

subsection \<open>C2: what a completed window holds\<close>

text \<open>
  C2. For every sequence of N = 430 raw samples, each consumed by one pass of the main
  loop that observes the ready flag, starting from a fresh window: the last pass
  completes the window, and the window it hands over has as running sum the arithmetic
  sum of the samples, as count N, and as maximum and minimum the greatest and the least
  sample. The statement is for every list \<open>xs\<close>, so for every order of the samples.
\<close>

theorem C2_window_aggregates:
  assumes "window_fresh s" and "length xs = 430"
  shows "run fp s (feed xs) = window_done fp (collect s xs)
       \<and> sint (ADCValSum (collect s xs)) = sum_list (map sint xs)
       \<and> sample (collect s xs) = nSample
       \<and> sint (ADCHigh (collect s xs)) = Max (sint ` set xs)
       \<and> sint (ADCLow (collect s xs)) = Min (sint ` set xs)"
proof -
  from assms(2) have ne: "xs \<noteq> []" by auto
  show ?thesis
    using assms ne
    by (simp add: run_feed_window window_sum_sint window_sample window_high window_low nSample_def)
qed

text \<open>
  The hypotheses of C2 hold for the window that \<open>setup\<close> leaves, fed 215 samples of
  value -3 and then 215 samples of value 5.
\<close>

theorem C2_window_aggregates_witness:
  "window_fresh (setup_sketch example_ops (power_on erased))
   \<and> length (replicate 215 (- 3) @ replicate 215 (5::int16)) = 430
   \<and> (let w = collect (setup_sketch example_ops (power_on erased))
                  (replicate 215 (- 3) @ replicate 215 5)
      in sint (ADCValSum w) = 430 \<and> sample w = 430 \<and> sint (ADCHigh w) = 5 \<and> sint (ADCLow w) = - 3)"
  using C2_window_aggregates [where s = "setup_sketch example_ops (power_on erased)"
      and xs = "replicate 215 (- 3) @ replicate 215 5" and fp = example_ops]
    setup_fresh [of example_ops erased]
  by (simp add: Let_def sum_list_replicate nSample_def)

subsection \<open>C3: the layout of the persistent store\<close>

text \<open>
  C3 as the spec states it: the offset is stored at the address right after the
  programmed flag, and the scale factor after the offset. The addresses of lines 93-95
  say otherwise: the offset is not at the address after the flag, and its address is not
  below that of the scale factor.
\<close>

theorem C3_counterexample:
  "ADCOffsetAddr \<noteq> EEPROMProgrammedFlagAddr + sizeof_int \<and> \<not> ADCOffsetAddr < ADCCalAddr"
  by (simp add: addrs sizeof_int_def)

text \<open>
  C3, amended. The store has the sequential layout
  \<open>[programmedFlag: int][scaleFactor: float][offset: long]\<close>: the scale factor is at the
  address right after the programmed flag, the offset at the address right after the
  scale factor, and once the three fields are written the first ten bytes of the store
  are the bytes of the flag, of the scale factor and of the offset, in this order.
\<close>

theorem C3_layout:
  "ADCCalAddr = EEPROMProgrammedFlagAddr + sizeof_int
   \<and> ADCOffsetAddr = ADCCalAddr + sizeof_float
   \<and> get_bytes EEPROMProgrammedFlagAddr (sizeof_int + sizeof_float + sizeof_long)
         (EEPROM_put_float ADCCalAddr c
           (EEPROM_put_long ADCOffsetAddr off (EEPROM_put_int EEPROMProgrammedFlagAddr f e)))
       = le_bytes sizeof_int f @ le_bytes sizeof_float (bits c) @ le_bytes sizeof_long off"
  using layout_bytes [of c off f e]
  by (simp add: addrs sizeof_int_def sizeof_float_def sizeof_long_def)

subsection \<open>C4: the first field of the log record\<close>

text \<open>
  C4 as the spec states it: the first field of the record is the mean of the raw sum,
  the sum before the offset correction. In \<open>logging_boot\<close> the stored offset sum is 430;
  after 430 samples of value 0 the raw sum is 0 and its mean is 0, but the first field
  of the record that is printed is 1.
\<close>

theorem C4_counterexample:
  "take 1 (drop (length (serial_out logging_boot))
             (serial_out (run example_ops logging_boot (feed (replicate 430 0)))))
     = [Fmt_d 6 1]
   \<and> long_div (ADCVal0 (run example_ops logging_boot (feed (replicate 430 0)))) (scast nSample) = 0
   \<and> take 1 (drop (length (serial_out logging_boot))
             (serial_out (run example_ops logging_boot (feed (replicate 430 0)))))
     \<noteq> [Fmt_d 6 (long_div (ADCVal0 (run example_ops logging_boot (feed (replicate 430 0))))
                         (scast nSample))]"
  by (simp add: window_record window_reading logging_boot_facts window_sum nSample_def
        long_div_example sum_list_replicate)

text \<open>
  C4, amended. The first field of each log record is the integer mean of the
  offset-corrected sum of the completed window, \<open>(w.sum + ADCOffset) / N\<close>, the very
  quotient that \<open>Amps\<close> scales, handed to the width-6 integer conversion;
  \<open>Print_Data\<close> runs after line 170 has added the offset sum to \<open>ADCValSum\<close>. It is
  followed by \<open>Amps\<close>, high, low and high minus low, each under \<open>%8.4f\<close>. The first
  field is the mean of the raw sum when the offset sum is 0.
\<close>

theorem C4_log_record:
  assumes "window_fresh s" and "length xs = 430" and "SerialDisplay s"
  shows "let w = collect s xs; s' = run fp s (feed xs);
             mean = long_div (ADCValSum w + ADCOffset s) (scast nSample)
         in serial_out s' = serial_out s @
              [Fmt_d 6 mean, Txt '' , '', Fmt_f 8 4 (Amps s'), Txt '' , '',
               Fmt_f 8 4 (highVolts fp w), Txt '' , '', Fmt_f 8 4 (lowVolts fp w), Txt '' , '',
               Fmt_f 8 4 (fsub fp (highVolts fp w) (lowVolts fp w)), NL]
          \<and> Amps s' = fmul fp (VScale s) (float_of_long fp mean)
          \<and> ADCVal0 s' = ADCValSum w
          \<and> (ADCOffset s = 0 \<longrightarrow> mean = long_div (ADCVal0 s') (scast nSample))"
  using window_reading [OF assms(1,2), of fp] window_record [OF assms(1,2), of fp] assms(3)
  by (simp add: Let_def)

text \<open>The hypotheses of the amended C4 hold in \<open>logging_boot\<close> fed 430 samples of value 0.\<close>

theorem C4_log_record_witness:
  "window_fresh logging_boot \<and> length (replicate 430 (0::int16)) = 430
   \<and> SerialDisplay logging_boot
   \<and> (let w = collect logging_boot (replicate 430 0);
          s' = run example_ops logging_boot (feed (replicate 430 0))
      in serial_out s' = serial_out logging_boot @
              [Fmt_d 6 1, Txt '' , '', Fmt_f 8 4 (Amps s'), Txt '' , '',
               Fmt_f 8 4 (highVolts example_ops w), Txt '' , '',
               Fmt_f 8 4 (lowVolts example_ops w), Txt '' , '',
               Fmt_f 8 4 (fsub example_ops (highVolts example_ops w) (lowVolts example_ops w)), NL]
       \<and> ADCVal0 s' = 0)"
  using C4_log_record [where s = logging_boot and xs = "replicate 430 0" and fp = example_ops]
    logging_boot_facts
  by (auto simp add: Let_def window_sum sum_list_replicate long_div_example nSample_def)

subsection \<open>C5: a rejected scale-factor entry\<close>

text \<open>
  C5. When the numeric read of the scale-factor sub-dialog fails to parse (\<open>entry\<close> is
  \<open>None\<close>) or reads a number that is not within the accepted bound 10000,
  \<open>Set_Scale\<close> changes neither the scale factor \<open>ADCCal\<close>, nor the voltage scale
  \<open>VScale\<close>, nor the persistent store, and it reports the rejection: the line
  "Scale factor not updated = " with the scale factor that stays in force.
\<close>

theorem C5_scale_entry_rejected:
  assumes "case entry of None \<Rightarrow> True | Some v \<Rightarrow> \<not> within v 10000"
  shows "let s' = Set_Scale fp (getFloat within entry aflt 10000) s in
      ADCCal s' = ADCCal s \<and> VScale s' = VScale s \<and> eeprom s' = eeprom s
    \<and> calibration_of s' = calibration_of s
    \<and> serial_out s' = serial_out s @
          [Txt ''Enter scale factor'', Dflt (ADCCal s), NL,
           Txt ''Scale factor not updated = '', NumFloat (ADCCal s) 4, NL]"
proof -
  have "getFloat within entry aflt 10000 = (0, aflt)"
    using assms by (rule getFloat_rejects)
  then show ?thesis
    by (simp add: Set_Scale_rejected say_def calibration_of_def)
qed

text \<open>
  The hypothesis of C5 holds for an entry beyond the bound of \<open>example_within\<close>, typed
  right after boot.
\<close>

theorem C5_scale_entry_rejected_witness:
  "(case Some (Float 20000) of None \<Rightarrow> True | Some v \<Rightarrow> \<not> example_within v 10000)
   \<and> (let s = setup_sketch example_ops (power_on erased);
          s' = Set_Scale example_ops (getFloat example_within (Some (Float 20000)) lit_0_0 10000) s
      in ADCCal s' = ADCCal s \<and> VScale s' = VScale s \<and> eeprom s' = eeprom s
       \<and> serial_out s' = serial_out s @
            [Txt ''Enter scale factor'', Dflt (ADCCal s), NL,
             Txt ''Scale factor not updated = '', NumFloat (ADCCal s) 4, NL])"
  using C5_scale_entry_rejected [where entry = "Some (Float 20000)" and within = example_within
      and fp = example_ops and aflt = lit_0_0 and s = "setup_sketch example_ops (power_on erased)"]
  by (simp add: example_within_def Let_def)

subsection \<open>C6: capturing the offset\<close>

text \<open>
  C6. After a window of N = 430 samples \<open>xs\<close> has completed, and while the next window
  is still open (fewer than N further samples \<open>ys\<close>), the command \<open>O\<close> or \<open>o\<close> sets the
  offset sum to the negative of the raw sum of that window, which is the arithmetic sum
  of \<open>xs\<close> whatever the offset was; it writes the new offset to the store at the offset
  address, where it reads back; and it recomputes the per-sample offset as the offset
  sum divided by N, in floating point.
\<close>

theorem C6_capture_offset:
  assumes "window_fresh s" and "length xs = 430" and "length ys < 430"
    and "\<not> gotADCValue s" and "c = CHR ''O'' \<or> c = CHR ''o''"
  shows "let s1 = run fp s (feed xs @ feed ys);
             s' = run fp s1 [Pass v (c # rest) gf]
         in ADCVal0 s1 = ADCValSum (collect s xs)
          \<and> sint (ADCVal0 s1) = sum_list (map sint xs)
          \<and> ADCOffset s' = - ADCVal0 s1
          \<and> sint (ADCOffset s') = - sum_list (map sint xs)
          \<and> eeprom s' = EEPROM_put_long ADCOffsetAddr (ADCOffset s') (eeprom s1)
          \<and> EEPROM_get_long ADCOffsetAddr (eeprom s') = ADCOffset s'
          \<and> fADCOffset s' = fdiv fp (float_of_long fp (ADCOffset s')) (float_of_int fp nSample)"
proof -
  let ?w = "collect s xs"
  let ?s1 = "run fp s (feed xs @ feed ys)"
  let ?t = "?s1\<lparr> cmdChar := c \<rparr>"
  have s1: "?s1 = collect (window_done fp ?w) ys"
    using assms(1-3) by (rule run_feed_next)
  have "\<not> gotADCValue ?w" using assms(4) by (rule collect_idle)
  then have "\<not> gotADCValue (window_done fp ?w)" by (simp add: window_done_fields)
  then have idle: "\<not> gotADCValue ?s1" unfolding s1 by (rule collect_idle)
  have raw: "ADCVal0 ?s1 = ADCValSum ?w"
    by (simp add: s1 collect_frame window_done_fields)
  have sum: "ADCValSum ?w = word_of_int (sum_list (map sint xs))"
    using assms(1) by (rule window_sum)
  have sums: "sint (ADCValSum ?w) = sum_list (map sint xs)"
    using assms(1,2) by (rule window_sum_sint)
  from sum_samples_bound [of xs] assms(2)
  have bound: "- 2147483648 < sum_list (map sint xs)" "sum_list (map sint xs) < 2147483648"
    by simp_all
  have neg: "sint (- ADCValSum ?w) = - sum_list (map sint xs)"
    unfolding sum using bound by (rule sint_neg_long)
  have cmd: "run fp ?s1 [Pass v (c # rest) gf] = cmd_capture_offset fp ?t"
    using assms(5) by (simp add: pass_idle [OF idle] command_capture)
  have t: "ADCVal0 ?t = ADCVal0 ?s1" "eeprom ?t = eeprom ?s1" by simp_all
  show ?thesis
    unfolding Let_def cmd
    by (simp only: cmd_capture_offset_state t raw sums neg EEPROM_long_same calc_fADCOffset_def
          simp_thms)
qed

text \<open>
  The hypotheses of C6 hold after boot for 430 samples of value 7, two samples of the
  next window, and the command \<open>O\<close>: the offset becomes -3010.
\<close>

theorem C6_capture_offset_witness:
  "window_fresh (setup_sketch example_ops (power_on erased))
   \<and> length (replicate 430 (7::int16)) = 430 \<and> length [1, 2 :: int16] < 430
   \<and> \<not> gotADCValue (setup_sketch example_ops (power_on erased))
   \<and> (CHR ''O'' = CHR ''O'' \<or> CHR ''O'' = CHR ''o'')
   \<and> (let s1 = run example_ops (setup_sketch example_ops (power_on erased))
                   (feed (replicate 430 7) @ feed [1, 2]);
          s' = run example_ops s1 [Pass 0 ''O'' (0, lit_0_0)]
      in sint (ADCVal0 s1) = 3010 \<and> sint (ADCOffset s') = - 3010
       \<and> EEPROM_get_long ADCOffsetAddr (eeprom s') = ADCOffset s')"
  using C6_capture_offset [where s = "setup_sketch example_ops (power_on erased)"
      and xs = "replicate 430 7" and ys = "[1, 2]" and c = "CHR ''O''" and fp = example_ops
      and v = 0 and rest = "[]" and gf = "(0, lit_0_0)"]
    setup_fresh [of example_ops erased] setup_idle(2) [of example_ops erased]
  by (auto simp add: Let_def sum_list_replicate)

subsection \<open>C7: booting on a store that was never programmed\<close>

text \<open>
  C7. If the \<open>int\<close> read at the programmed-flag address at boot is not the expected
  constant, \<open>setup\<close> writes the sentinel, the offset 0 and the scale factor 1.0 to the
  store before it reads the calibration back. The reads then yield these defaults, the
  derived values are computed from them, and \<open>setup\<close> goes on as usual: it requests
  the first conversion and prints the prompt.
\<close>

theorem C7_boot_defaults:
  assumes "EEPROM_get_int EEPROMProgrammedFlagAddr e \<noteq> EEPROMFlag"
  shows "let s = setup_sketch fp (power_on e) in
      eeprom s = EEPROM_put_float ADCCalAddr lit_1_0
                   (EEPROM_put_long ADCOffsetAddr 0
                     (EEPROM_put_int EEPROMProgrammedFlagAddr EEPROMFlag e))
    \<and> EEPROM_get_int EEPROMProgrammedFlagAddr (eeprom s) = EEPROMFlag
    \<and> EEPROM_get_long ADCOffsetAddr (eeprom s) = 0
    \<and> EEPROM_get_float ADCCalAddr (eeprom s) = lit_1_0
    \<and> ADCOffset s = 0 \<and> ADCCal s = lit_1_0
    \<and> fADCOffset s = calc_fADCOffset fp 0 \<and> VScale s = calc_VScale fp lit_1_0
    \<and> serial_out s = [Txt vers, NL, Txt ''Loading defaults to EEPROM...'', Txt '' Done.'', NL,
                       Txt ''(Press ? for menu)'', NL] @ prompt_items
    \<and> adc_requests s = 1"
  by (simp add: setup_unprogrammed [OF assms] Let_def EEPROM_simps)

text \<open>The hypothesis of C7 holds for an erased EEPROM, every byte of which reads 0xFF.\<close>

theorem C7_boot_defaults_witness:
  "EEPROM_get_int EEPROMProgrammedFlagAddr erased \<noteq> EEPROMFlag
   \<and> (let s = setup_sketch example_ops (power_on erased) in
        EEPROM_get_int EEPROMProgrammedFlagAddr (eeprom s) = 12345
      \<and> EEPROM_get_long ADCOffsetAddr (eeprom s) = 0
      \<and> EEPROM_get_float ADCCalAddr (eeprom s) = Float 0x3F800000
      \<and> ADCOffset s = 0 \<and> ADCCal s = Float 0x3F800000 \<and> adc_requests s = 1)"
  using C7_boot_defaults [OF erased_flag, of example_ops] erased_flag
  by (simp add: Let_def EEPROMFlag_def lit_1_0_def EEPROM_simps)

subsection \<open>C8: the window invariant and the reset\<close>

text \<open>
  C8. The count of the window is in \<open>[0, N)\<close> between the passes of \<open>loop()\<close>: this holds
  when \<open>setup\<close> returns, and every event (the interrupt, a pass of the loop with
  whatever sample and whatever command) keeps it. The pass in which the count reaches N
  consumes the window (its sum is saved as the raw sum) and resets it: sum 0, count 0,
  maximum -32768, minimum 32767. After such a reset the first sample becomes both the
  running maximum and the running minimum, whatever its value; at the two extreme codes
  the strict comparison is not taken, and the extremum already equals the sample.
\<close>

theorem C8_window_invariant:
  "window_open (setup_sketch fp (power_on e))
   \<and> (window_open s \<longrightarrow> window_open (step fp s ev))
   \<and> (gotADCValue s \<and> sample s + 1 = nSample \<longrightarrow>
        (let s' = loop fp v rx gf s
         in ADCVal0 s' = ADCValSum s + scast v
          \<and> sample s' = 0 \<and> ADCValSum s' = 0 \<and> ADCHigh s' = - 32768 \<and> ADCLow s' = 32767))
   \<and> (window_fresh s \<longrightarrow>
        (let s' = accumulate v s
         in ADCHigh s' = scast v \<and> ADCLow s' = scast v \<and> sample s' = 1
          \<and> ADCValSum s' = scast v))"
proof -
  have a: "window_open (setup_sketch fp (power_on e))"
    by (rule fresh_open) (rule setup_fresh)
  have b: "window_open s \<longrightarrow> window_open (step fp s ev)"
    by (simp add: step_open)
  have c: "gotADCValue s \<and> sample s + 1 = nSample \<longrightarrow>
        (let s' = loop fp v rx gf s
         in ADCVal0 s' = ADCValSum s + scast v
          \<and> sample s' = 0 \<and> ADCValSum s' = 0 \<and> ADCHigh s' = - 32768 \<and> ADCLow s' = 32767)"
  proof
    assume "gotADCValue s \<and> sample s + 1 = nSample"
    then have "window_of (loop fp v rx gf s)
               = (0, 0, - 32768, 32767, ADCValSum s + scast v, False)"
      by (intro loop_completes) simp_all
    then show "let s' = loop fp v rx gf s
         in ADCVal0 s' = ADCValSum s + scast v
          \<and> sample s' = 0 \<and> ADCValSum s' = 0 \<and> ADCHigh s' = - 32768 \<and> ADCLow s' = 32767"
      by (simp add: window_of_def Let_def)
  qed
  have d: "window_fresh s \<longrightarrow>
        (let s' = accumulate v s
         in ADCHigh s' = scast v \<and> ADCLow s' = scast v \<and> sample s' = 1
          \<and> ADCValSum s' = scast v)"
    by (simp add: first_sample Let_def)
  from a b c d show ?thesis by (intro conjI)
qed

text \<open>
  The hypotheses of C8 at concrete states: the state after boot, which is open and
  fresh, and the state after 429 samples and one more interrupt, in which the next pass
  completes the window.
\<close>

theorem C8_window_invariant_witness:
  "window_open (setup_sketch example_ops (power_on erased))
   \<and> window_open (step example_ops (setup_sketch example_ops (power_on erased)) Ready)
   \<and> (let s = run example_ops (setup_sketch example_ops (power_on erased))
                 (feed (replicate 429 3) @ [Ready]);
          s' = loop example_ops 4 [] (0, lit_0_0) s
      in gotADCValue s \<and> sample s + 1 = nSample
       \<and> sample s' = 0 \<and> ADCValSum s' = 0 \<and> ADCHigh s' = - 32768 \<and> ADCLow s' = 32767)
   \<and> window_fresh (setup_sketch example_ops (power_on erased))
   \<and> (let s' = accumulate (- 32768) (setup_sketch example_ops (power_on erased))
      in ADCHigh s' = - 32768 \<and> ADCLow s' = - 32768 \<and> sample s' = 1)"
proof -
  let ?boot = "setup_sketch example_ops (power_on erased)"
  let ?s = "run example_ops ?boot (feed (replicate 429 3) @ [Ready])"
  have f: "window_fresh ?boot" by (rule setup_fresh)
  then have "run example_ops ?boot (feed (replicate 429 3)) = collect ?boot (replicate 429 3)"
    by (intro run_feed_open) (simp_all add: window_fresh_def)
  then have s: "?s = ADCread (collect ?boot (replicate 429 3))"
    by (simp add: run_append, simp add: run_def)
  have g: "gotADCValue ?s" by (simp add: s ADCread_def)
  have n: "sample ?s + 1 = nSample"
    using f by (simp add: s ADCread_def collect_sample window_fresh_def nSample_def)
  show ?thesis
    using C8_window_invariant [where fp = example_ops and e = erased and s = ?boot and ev = Ready
        and v = "- 32768"]
      C8_window_invariant [where fp = example_ops and e = erased and s = ?s and ev = Ready
        and v = 4 and rx = "[]" and gf = "(0, lit_0_0)"]
      f g n
    by (simp add: Let_def)
qed

subsection \<open>C9: prompt after every command but the logging toggle\<close>

text \<open>
  C9. Whatever the command byte \<open>c\<close>, unless it is \<open>S\<close> or \<open>s\<close>, the last thing its
  handler prints is the interactive prompt; this covers every recognised command and the
  unrecognised bytes as well. For \<open>S\<close> and \<open>s\<close> the handler flips the logging flag and
  prints the log header and nothing else, so no prompt, and it leaves the offset, the
  scale factor, the values derived from them and the persistent store as they were.
\<close>

theorem C9_prompt_or_header:
  "let s' = loop_serial fp (c # rest) gf s in
     (c \<noteq> CHR ''S'' \<and> c \<noteq> CHR ''s'' \<longrightarrow>
        (\<exists>mid. serial_out s' = serial_out s @ mid @ prompt_items))
   \<and> (c = CHR ''S'' \<or> c = CHR ''s'' \<longrightarrow>
        SerialDisplay s' = (\<not> SerialDisplay s)
      \<and> serial_out s' = serial_out s @ header_items (\<not> SerialDisplay s)
      \<and> Txt ''> '' \<notin> set (header_items (\<not> SerialDisplay s))
      \<and> calibration_of s' = calibration_of s)"
proof -
  let ?t = "s\<lparr> cmdChar := c \<rparr>"
  have t: "serial_out ?t = serial_out s" "SerialDisplay ?t = SerialDisplay s"
    "calibration_of ?t = calibration_of s" "cmdChar ?t = c"
    by (simp_all add: calibration_of_def)
  have run: "loop_serial fp (c # rest) gf s = command fp gf ?t"
    by (simp add: loop_serial_def)
  have other: "\<exists>mid. serial_out (command fp gf ?t) = serial_out s @ mid @ prompt_items"
    if "c \<noteq> CHR ''S''" "c \<noteq> CHR ''s''"
    using command_ends_with_prompt [of ?t fp gf] that by (simp only: t simp_thms)
  have toggle: "command fp gf ?t = cmd_toggle ?t" if "c = CHR ''S'' \<or> c = CHR ''s''"
    using that by (intro command_toggle) (simp only: t)
  show ?thesis
    unfolding Let_def run
    using other toggle
    by (auto simp add: handlers_out cmd_toggle_state t header_no_prompt simp del: One_nat_def)
qed

text \<open>
  Both cases of C9 right after boot: the command \<open>P\<close> ends with the prompt, the command
  \<open>S\<close> turns logging on and prints the header only.
\<close>

theorem C9_prompt_or_header_witness:
  "(CHR ''P'' \<noteq> CHR ''S'' \<and> CHR ''P'' \<noteq> CHR ''s'')
   \<and> (\<exists>mid. serial_out (loop_serial example_ops ''P'' (0, lit_0_0)
                  (setup_sketch example_ops (power_on erased)))
          = serial_out (setup_sketch example_ops (power_on erased)) @ mid @ prompt_items)
   \<and> (CHR ''S'' = CHR ''S'' \<or> CHR ''S'' = CHR ''s'')
   \<and> (let s = setup_sketch example_ops (power_on erased);
          s' = loop_serial example_ops ''S'' (0, lit_0_0) s
      in SerialDisplay s' \<and> serial_out s' = serial_out s @ header_items True
       \<and> calibration_of s' = calibration_of s)"
  using C9_prompt_or_header [where c = "CHR ''P''" and rest = "[]" and fp = example_ops
      and gf = "(0, lit_0_0)" and s = "setup_sketch example_ops (power_on erased)"]
    C9_prompt_or_header [where c = "CHR ''S''" and rest = "[]" and fp = example_ops
      and gf = "(0, lit_0_0)" and s = "setup_sketch example_ops (power_on erased)"]
  by (simp add: Let_def setup_idle)

subsection \<open>C10: capturing the offset before any window has completed\<close>

text \<open>
  C10. If the command \<open>O\<close> or \<open>o\<close> comes after boot while the first window is still
  open (fewer than N = 430 samples so far), the saved raw sum \<open>ADCVal0\<close> still has its
  initial value 0: the command sets the offset to 0 and writes 0 to the store, and its
  output is the usual echo, "Offset captured and saved." and the prompt, with no error
  or warning.
\<close>

theorem C10_capture_before_first_window:
  assumes "length ys < 430" and "c = CHR ''O'' \<or> c = CHR ''o''"
  shows "let s1 = run fp (setup_sketch fp (power_on e)) (feed ys);
             s' = run fp s1 [Pass v (c # rest) gf]
         in ADCVal0 s1 = 0
          \<and> ADCOffset s' = 0
          \<and> eeprom s' = EEPROM_put_long ADCOffsetAddr 0 (eeprom s1)
          \<and> EEPROM_get_long ADCOffsetAddr (eeprom s') = 0
          \<and> serial_out s' = serial_out s1 @
                [Chr c, NL, Txt ''Offset captured and saved.'', NL] @ prompt_items"
proof -
  let ?s0 = "setup_sketch fp (power_on e)"
  let ?s1 = "run fp ?s0 (feed ys)"
  let ?t = "?s1\<lparr> cmdChar := c \<rparr>"
  have "window_fresh ?s0" by (rule setup_fresh)
  then have s1: "?s1 = collect ?s0 ys"
    using assms(1) by (intro run_feed_open) (simp_all add: window_fresh_def)
  have idle: "\<not> gotADCValue ?s1"
    unfolding s1 by (rule collect_idle) (rule setup_idle)
  have raw: "ADCVal0 ?s1 = 0"
    by (simp add: s1 collect_frame setup_idle)
  have cmd: "run fp ?s1 [Pass v (c # rest) gf] = cmd_capture_offset fp ?t"
    using assms(2) by (simp add: pass_idle [OF idle] command_capture)
  have t: "ADCVal0 ?t = 0" "eeprom ?t = eeprom ?s1" "serial_out ?t = serial_out ?s1"
    "cmdChar ?t = c"
    by (simp_all add: raw)
  show ?thesis
    unfolding Let_def cmd
    by (simp add: cmd_capture_offset_state handlers_out t raw EEPROM_long_same
          del: One_nat_def)
qed

text \<open>The hypotheses of C10 hold for three samples after boot and the command \<open>o\<close>.\<close>

theorem C10_capture_before_first_window_witness:
  "length [5, - 5, 12 :: int16] < 430 \<and> (CHR ''o'' = CHR ''O'' \<or> CHR ''o'' = CHR ''o'')
   \<and> (let s1 = run example_ops (setup_sketch example_ops (power_on erased)) (feed [5, - 5, 12]);
          s' = run example_ops s1 [Pass 0 ''o'' (0, lit_0_0)]
      in ADCVal0 s1 = 0 \<and> ADCOffset s' = 0
       \<and> EEPROM_get_long ADCOffsetAddr (eeprom s') = 0)"
  using C10_capture_before_first_window [where ys = "[5, - 5, 12]" and c = "CHR ''o''"
      and fp = example_ops and e = erased and v = 0 and rest = "[]" and gf = "(0, lit_0_0)"]
  by (simp add: Let_def EEPROM_long_same)

end
